theory Spec2Isabelle
  imports Main
begin

section \<open>Values of the contract\<close>

text \<open>
  The escrow state machine is the Solidity contract \<open>LoyaltyConsumer\<close>
  (pragma \<open>^0.8.2\<close>). Its \<open>uint256\<close>, \<open>bytes32\<close> and \<open>address\<close> values are natural
  numbers here; the arithmetic the contract itself performs is checked as in
  Solidity 0.8: an overflow beyond \<open>MAX_UINT256\<close> is the error \<open>Panic\<close>.
\<close>

type_synonym uint256 = nat
type_synonym bytes32 = nat
type_synonym address = nat
type_synonym bytes = "nat list"

definition MAX_UINT256 :: nat where
  "MAX_UINT256 = 2 ^ 256 - 1"

definition AddressZero :: address where
  "AddressZero = 0"

text \<open>
  A failed call: \<open>Revert c\<close> is \<open>require(..., c)\<close> or \<open>revert(c)\<close>, \<open>Panic\<close> an arithmetic
  overflow of checked \<open>uint256\<close> arithmetic, \<open>InsufficientBalance\<close> a debit refused by
  the ledger.
\<close>

datatype error = Revert string | Panic | InsufficientBalance

definition checked_add :: "uint256 \<Rightarrow> uint256 \<Rightarrow> error + uint256" where
  "checked_add a b = (if a + b \<le> MAX_UINT256 then Inr (a + b) else Inl Panic)"

definition checked_mul :: "uint256 \<Rightarrow> uint256 \<Rightarrow> error + uint256" where
  "checked_mul a b = (if a * b \<le> MAX_UINT256 then Inr (a * b) else Inl Panic)"

text \<open>The arguments of \<open>abi.encode\<close>, in order.\<close>

datatype abi = abi_bytes32 bytes32 | abi_string string | abi_uint256 uint256 | abi_address address

text \<open>
  What the contract takes from outside, as parameters: the chain id and block time,
  \<open>keccak256\<close> over an encoded tuple, OpenZeppelin's \<open>ECDSA\<close> (\<open>None\<close> is a revert
  inside \<open>recover\<close>), and the conversions of the currency-rate contract and
  \<open>DMS.zeroGWEI\<close>, neither of which is among the sources. Every theorem below holds for
  any choice of these functions.
\<close>

record Env =
  chainid :: uint256
  block_timestamp :: uint256
  keccak256 :: "abi list \<Rightarrow> bytes32"
  toEthSignedMessageHash :: "bytes32 \<Rightarrow> bytes32"
  ECDSA_recover :: "bytes32 \<Rightarrow> bytes \<Rightarrow> address option"
  convertCurrencyToPoint :: "uint256 \<Rightarrow> string \<Rightarrow> uint256"
  convertPointToToken :: "uint256 \<Rightarrow> uint256"
  convertCurrency :: "uint256 \<Rightarrow> string \<Rightarrow> string \<Rightarrow> uint256"
  zeroGWEI :: "uint256 \<Rightarrow> uint256"

section \<open>Data model\<close>

datatype LoyaltyPaymentStatus =
  INVALID | OPENED_PAYMENT | CLOSED_PAYMENT | FAILED_PAYMENT
  | OPENED_CANCEL | CLOSED_CANCEL | FAILED_CANCEL

text \<open>\<open>struct LoyaltyPaymentInputData\<close>; its fields carry the prefix \<open>in_\<close>.\<close>

record LoyaltyPaymentInputData =
  in_paymentId :: bytes32
  in_purchaseId :: string
  in_amount :: uint256
  in_currency :: string
  in_shopId :: bytes32
  in_account :: address
  in_signature :: bytes
  in_secretLock :: bytes32

text \<open>\<open>struct LoyaltyPaymentData\<close>, the payment record.\<close>

record LoyaltyPaymentData =
  paymentId :: bytes32
  purchaseId :: string
  currency :: string
  shopId :: bytes32
  account :: address
  secretLock :: bytes32
  timestamp :: uint256
  paidPoint :: uint256
  paidToken :: uint256
  paidValue :: uint256
  feePoint :: uint256
  feeToken :: uint256
  feeValue :: uint256
  usedValueShop :: uint256
  status :: LoyaltyPaymentStatus

subsection \<open>The ledger\<close>

text \<open>
  Modelled from the spec: the Ledger contract behind \<open>ILedger\<close> is not among the
  sources. Section 4.3 of the specification gives it per-account point and token
  balances and a per-account nonce, \<open>debit\<close> and \<open>credit\<close> of an amount (a debit
  "fails the whole call if balance would go negative"), \<open>transfer\<close> as an atomic debit
  and credit, \<open>consumeNonce\<close>, and lookups of the fee-collection account and the fee
  rate in basis points. Amounts are natural numbers and a credit has no failure mode.
\<close>

record Ledger =
  pointBalances :: "address \<Rightarrow> uint256"
  tokenBalances :: "address \<Rightarrow> uint256"
  nonce :: "address \<Rightarrow> uint256"
  paymentFee :: uint256
  paymentFeeAccount :: address

definition pointBalanceOf :: "Ledger \<Rightarrow> address \<Rightarrow> uint256" where
  "pointBalanceOf L a = pointBalances L a"

definition tokenBalanceOf :: "Ledger \<Rightarrow> address \<Rightarrow> uint256" where
  "tokenBalanceOf L a = tokenBalances L a"

definition nonceOf :: "Ledger \<Rightarrow> address \<Rightarrow> uint256" where
  "nonceOf L a = nonce L a"

definition getPaymentFee :: "Ledger \<Rightarrow> uint256" where
  "getPaymentFee L = paymentFee L"

definition getPaymentFeeAccount :: "Ledger \<Rightarrow> address" where
  "getPaymentFeeAccount L = paymentFeeAccount L"

definition increaseNonce :: "Ledger \<Rightarrow> address \<Rightarrow> Ledger" where
  "increaseNonce L a = L\<lparr>nonce := (nonce L)(a := nonce L a + 1)\<rparr>"

definition addPointBalance :: "Ledger \<Rightarrow> address \<Rightarrow> uint256 \<Rightarrow> Ledger" where
  "addPointBalance L a n = L\<lparr>pointBalances := (pointBalances L)(a := pointBalances L a + n)\<rparr>"

definition subPointBalance :: "Ledger \<Rightarrow> address \<Rightarrow> uint256 \<Rightarrow> error + Ledger" where
  "subPointBalance L a n =
     (if pointBalances L a < n then Inl InsufficientBalance
      else Inr (L\<lparr>pointBalances := (pointBalances L)(a := pointBalances L a - n)\<rparr>))"

definition addTokenBalance :: "Ledger \<Rightarrow> address \<Rightarrow> uint256 \<Rightarrow> Ledger" where
  "addTokenBalance L a n = L\<lparr>tokenBalances := (tokenBalances L)(a := tokenBalances L a + n)\<rparr>"

definition subTokenBalance :: "Ledger \<Rightarrow> address \<Rightarrow> uint256 \<Rightarrow> error + Ledger" where
  "subTokenBalance L a n =
     (if tokenBalances L a < n then Inl InsufficientBalance
      else Inr (L\<lparr>tokenBalances := (tokenBalances L)(a := tokenBalances L a - n)\<rparr>))"

definition transferToken :: "Ledger \<Rightarrow> address \<Rightarrow> address \<Rightarrow> uint256 \<Rightarrow> error + Ledger" where
  "transferToken L from to n =
     (case subTokenBalance L from n of
        Inl e \<Rightarrow> Inl e
      | Inr L' \<Rightarrow> Inr (addTokenBalance L' to n))"

subsection \<open>The shop registry\<close>

datatype ShopStatus = SHOP_INVALID | ACTIVE | INACTIVE

text \<open>\<open>IShop.ShopData\<close>, the fields the contract reads, with the prefix \<open>shop_\<close>.\<close>

record ShopData =
  shop_status :: ShopStatus
  shop_currency :: string
  shop_account :: address
  shop_delegator :: address

text \<open>An entry of the used-amount ledger: shop, amount, purchase and payment.\<close>

datatype usage =
    AddUsed bytes32 uint256 string bytes32
  | SubUsed bytes32 uint256 string bytes32

text \<open>
  Modelled from the spec: the Shop contract behind \<open>IShop\<close> is not among the sources.
  Section 4.4 of the specification gives it \<open>shopOf\<close>, \<open>recordUsage\<close> and
  \<open>reverseUsage\<close> over a used-amount ledger that is "append-only with explicit
  reversal, not deletion".
\<close>

record Shop =
  shops :: "bytes32 \<Rightarrow> ShopData"
  usedAmounts :: "usage list"

definition shopOf :: "Shop \<Rightarrow> bytes32 \<Rightarrow> ShopData" where
  "shopOf S i = shops S i"

definition addUsedAmount :: "Shop \<Rightarrow> bytes32 \<Rightarrow> uint256 \<Rightarrow> string \<Rightarrow> bytes32 \<Rightarrow> Shop" where
  "addUsedAmount S i v pur pid = S\<lparr>usedAmounts := usedAmounts S @ [AddUsed i v pur pid]\<rparr>"

definition subUsedAmount :: "Shop \<Rightarrow> bytes32 \<Rightarrow> uint256 \<Rightarrow> string \<Rightarrow> bytes32 \<Rightarrow> Shop" where
  "subUsedAmount S i v pur pid = S\<lparr>usedAmounts := usedAmounts S @ [SubUsed i v pur pid]\<rparr>"

subsection \<open>Storage of the contract\<close>

text \<open>
  The storage of \<open>LoyaltyConsumer\<close> together with the two contracts it calls.
  \<open>loyaltyPayments\<close> is a Solidity mapping: every key has a record, zero-initialised
  (status \<open>INVALID\<close>) until written. \<open>events\<close> collects the emitted
  \<open>LoyaltyPaymentEvent(payment, balance)\<close>, oldest first.
\<close>

record State =
  loyaltyPayments :: "bytes32 \<Rightarrow> LoyaltyPaymentData"
  temporaryAddress :: address
  systemAccount :: address
  ledgerContract :: Ledger
  shopContract :: Shop
  events :: "(LoyaltyPaymentData \<times> uint256) list"

text \<open>
  A call that fails is rolled back by the EVM: the storage after a transaction is the
  returned state, or the state before the call when it reverted.
\<close>

definition commit :: "State \<Rightarrow> error + State \<Rightarrow> State" where
  "commit s r = (case r of Inl e \<Rightarrow> s | Inr s' \<Rightarrow> s')"

text \<open>\<open>ECDSA.recover(ECDSA.toEthSignedMessageHash(h), sig)\<close>.\<close>

definition recoverSigner :: "Env \<Rightarrow> bytes32 \<Rightarrow> bytes \<Rightarrow> error + address" where
  "recoverSigner env h sig =
     (case ECDSA_recover env (toEthSignedMessageHash env h) sig of
        None \<Rightarrow> Inl (Revert ''ECDSA: invalid signature'')
      | Some a \<Rightarrow> Inr a)"

section \<open>Operations\<close>

definition emitLoyaltyPaymentEvent :: "State \<Rightarrow> bytes32 \<Rightarrow> uint256 \<Rightarrow> State" where
  "emitLoyaltyPaymentEvent s pid bal = s\<lparr>events := events s @ [(loyaltyPayments s pid, bal)]\<rparr>"

definition openNewLoyaltyPaymentPoint :: "Env \<Rightarrow> State \<Rightarrow> LoyaltyPaymentInputData \<Rightarrow> error + State" where
  "openNewLoyaltyPaymentPoint env s d =
     (let paidPoint' = convertCurrencyToPoint env (in_amount d) (in_currency d);
          paidToken' = convertPointToToken env paidPoint'
      in case checked_mul (in_amount d) (getPaymentFee (ledgerContract s)) of
           Inl e \<Rightarrow> Inl e
         | Inr feeProduct \<Rightarrow>
     (let feeValue' = zeroGWEI env (feeProduct div 10000);
          feePoint' = convertCurrencyToPoint env feeValue' (in_currency d);
          feeToken' = convertPointToToken env feePoint'
      in case checked_add paidPoint' feePoint' of
           Inl e \<Rightarrow> Inl e
         | Inr totalPoint \<Rightarrow>
     if \<not> (pointBalanceOf (ledgerContract s) (in_account d) \<ge> totalPoint) then Inl (Revert ''1511'')
     else
       (case subPointBalance (ledgerContract s) (in_account d) totalPoint of
          Inl e \<Rightarrow> Inl e
        | Inr L1 \<Rightarrow>
       (let L2 = addPointBalance L1 (temporaryAddress s) totalPoint;
            s1 = s\<lparr>ledgerContract := L2,
                   loyaltyPayments := (loyaltyPayments s)(in_paymentId d :=
                     \<lparr>paymentId = in_paymentId d,
                      purchaseId = in_purchaseId d,
                      currency = in_currency d,
                      shopId = in_shopId d,
                      account = in_account d,
                      secretLock = in_secretLock d,
                      timestamp = block_timestamp env,
                      paidPoint = paidPoint',
                      paidToken = paidToken',
                      paidValue = in_amount d,
                      feePoint = feePoint',
                      feeToken = feeToken',
                      feeValue = feeValue',
                      usedValueShop = 0,
                      status = OPENED_PAYMENT\<rparr>)\<rparr>
        in Inr (emitLoyaltyPaymentEvent s1 (in_paymentId d)
                  (pointBalanceOf (ledgerContract s1) (in_account d)))))))"

definition openNewLoyaltyPayment :: "Env \<Rightarrow> State \<Rightarrow> LoyaltyPaymentInputData \<Rightarrow> error + State" where
  "openNewLoyaltyPayment env s d =
     (if status (loyaltyPayments s (in_paymentId d)) \<noteq> INVALID then Inl (Revert ''1530'')
      else
        (let dataHash = keccak256 env
               [abi_bytes32 (in_paymentId d), abi_string (in_purchaseId d),
                abi_uint256 (in_amount d), abi_string (in_currency d),
                abi_bytes32 (in_shopId d), abi_address (in_account d),
                abi_uint256 (chainid env),
                abi_uint256 (nonceOf (ledgerContract s) (in_account d))]
         in case recoverSigner env dataHash (in_signature d) of
              Inl e \<Rightarrow> Inl e
            | Inr signer \<Rightarrow>
                if signer \<noteq> in_account d then Inl (Revert ''1501'')
                else openNewLoyaltyPaymentPoint env
                       (s\<lparr>ledgerContract := increaseNonce (ledgerContract s) (in_account d)\<rparr>) d))"

definition closeNewLoyaltyPayment :: "Env \<Rightarrow> State \<Rightarrow> bytes32 \<Rightarrow> bytes32 \<Rightarrow> bool \<Rightarrow> error + State" where
  "closeNewLoyaltyPayment env s pid secret confirm =
     (let p = loyaltyPayments s pid in
      if status p \<noteq> OPENED_PAYMENT then Inl (Revert ''1531'')
      else if secretLock p \<noteq> keccak256 env [abi_bytes32 secret] then Inl (Revert ''1505'')
      else
        (case checked_add (paidPoint p) (feePoint p) of
           Inl e \<Rightarrow> Inl e
         | Inr totalPoint \<Rightarrow>
        if confirm then
          (case subPointBalance (ledgerContract s) (temporaryAddress s) totalPoint of
             Inl e \<Rightarrow> Inl e
           | Inr L1 \<Rightarrow>
          (case (if tokenBalanceOf L1 (systemAccount s) \<ge> feeToken p
                 then (case subTokenBalance L1 (systemAccount s) (feeToken p) of
                         Inl e \<Rightarrow> Inl e
                       | Inr L \<Rightarrow> Inr (addTokenBalance L (getPaymentFeeAccount L) (feeToken p)))
                 else Inr L1) of
             Inl e \<Rightarrow> Inl e
           | Inr L2 \<Rightarrow>
          (let shop = shopOf (shopContract s) (shopId p);
               p1 = (if shop_status shop = ACTIVE
                     then p\<lparr>usedValueShop :=
                            convertCurrency env (paidValue p) (currency p) (shop_currency shop)\<rparr>
                     else p);
               S1 = (if shop_status shop = ACTIVE
                     then addUsedAmount (shopContract s) (shopId p1) (usedValueShop p1)
                            (purchaseId p1) pid
                     else shopContract s);
               s1 = s\<lparr>ledgerContract := L2, shopContract := S1,
                      loyaltyPayments := (loyaltyPayments s)(pid := p1\<lparr>status := CLOSED_PAYMENT\<rparr>)\<rparr>
           in Inr (emitLoyaltyPaymentEvent s1 pid
                     (pointBalanceOf (ledgerContract s1) (account (loyaltyPayments s1 pid)))))))
        else
          (case subPointBalance (ledgerContract s) (temporaryAddress s) totalPoint of
             Inl e \<Rightarrow> Inl e
           | Inr L1 \<Rightarrow>
          (let L2 = addPointBalance L1 (account p) totalPoint;
               s1 = s\<lparr>ledgerContract := L2,
                      loyaltyPayments := (loyaltyPayments s)(pid := p\<lparr>status := FAILED_PAYMENT\<rparr>)\<rparr>
           in Inr (emitLoyaltyPaymentEvent s1 pid
                     (pointBalanceOf (ledgerContract s1) (account (loyaltyPayments s1 pid))))))))"

text \<open>
  The status guard of \<open>openCancelLoyaltyPayment\<close>, as the source writes it:
  \<open>(status != CLOSED_PAYMENT) || (status != FAILED_CANCEL)\<close>.
\<close>

definition cancelStatusGuard :: "LoyaltyPaymentStatus \<Rightarrow> bool" where
  "cancelStatusGuard st = ((st \<noteq> CLOSED_PAYMENT) \<or> (st \<noteq> FAILED_CANCEL))"

text \<open>
  The signature check of \<open>openCancelLoyaltyPayment\<close> (from \<open>shopOf\<close> to the
  assignment of \<open>pass2\<close>), returning \<open>(pass1, pass2)\<close>: the signature is recovered
  against the hash over the shop's account and that account's nonce, and, when a
  delegator is registered, against the hash over the delegator and the delegator's
  nonce.
\<close>

definition openCancelSignatureCheck :: "Env \<Rightarrow> State \<Rightarrow> bytes32 \<Rightarrow> bytes \<Rightarrow> error + (bool \<times> bool)" where
  "openCancelSignatureCheck env s pid sig =
     (let p = loyaltyPayments s pid;
          shopInfo = shopOf (shopContract s) (shopId p);
          dataHash1 = keccak256 env
            [abi_bytes32 pid, abi_string (purchaseId p), abi_address (shop_account shopInfo),
             abi_uint256 (chainid env),
             abi_uint256 (nonceOf (ledgerContract s) (shop_account shopInfo))]
      in case recoverSigner env dataHash1 sig of
           Inl e \<Rightarrow> Inl e
         | Inr signer1 \<Rightarrow>
             if shop_delegator shopInfo \<noteq> AddressZero then
               (let dataHash2 = keccak256 env
                      [abi_bytes32 pid, abi_string (purchaseId p),
                       abi_address (shop_delegator shopInfo),
                       abi_uint256 (chainid env),
                       abi_uint256 (nonceOf (ledgerContract s) (shop_delegator shopInfo))]
                in case recoverSigner env dataHash2 sig of
                     Inl e \<Rightarrow> Inl e
                   | Inr signer2 \<Rightarrow>
                       Inr (signer1 = shop_account shopInfo, signer2 = shop_delegator shopInfo))
             else Inr (signer1 = shop_account shopInfo, False))"

definition openCancelLoyaltyPayment :: "Env \<Rightarrow> State \<Rightarrow> bytes32 \<Rightarrow> bytes32 \<Rightarrow> bytes \<Rightarrow> error + State" where
  "openCancelLoyaltyPayment env s pid newLock sig =
     (let p = loyaltyPayments s pid in
      if \<not> cancelStatusGuard (status p) then Inl (Revert ''1532'')
      else
        (case checked_add (timestamp p) (86400 * 7) of
           Inl e \<Rightarrow> Inl e
         | Inr deadline \<Rightarrow>
        if \<not> (block_timestamp env \<le> deadline) then Inl (Revert ''1534'')
        else
          (case openCancelSignatureCheck env s pid sig of
             Inl e \<Rightarrow> Inl e
           | Inr (pass1, pass2) \<Rightarrow>
          if \<not> (pass1 \<or> pass2) then Inl (Revert ''1501'')
          else
            (let shopInfo = shopOf (shopContract s) (shopId p);
                 L1 = increaseNonce (ledgerContract s) (shop_account shopInfo)
             in
             if tokenBalanceOf L1 (getPaymentFeeAccount L1) \<ge> feeToken p then
               (case transferToken L1 (getPaymentFeeAccount L1) (temporaryAddress s) (feeToken p) of
                  Inl e \<Rightarrow> Inl e
                | Inr L2 \<Rightarrow>
               (case checked_add (paidPoint p) (feePoint p) of
                  Inl e \<Rightarrow> Inl e
                | Inr totalPoint \<Rightarrow>
               (let L3 = addPointBalance L2 (temporaryAddress s) totalPoint;
                    s1 = s\<lparr>ledgerContract := L3,
                           loyaltyPayments := (loyaltyPayments s)(pid :=
                             p\<lparr>secretLock := newLock, status := OPENED_CANCEL\<rparr>)\<rparr>
                in Inr (emitLoyaltyPaymentEvent s1 pid
                          (pointBalanceOf (ledgerContract s1) (account (loyaltyPayments s1 pid)))))))
             else Inl (Revert ''1513'')))))"

definition closeCancelLoyaltyPayment :: "Env \<Rightarrow> State \<Rightarrow> bytes32 \<Rightarrow> bytes32 \<Rightarrow> bool \<Rightarrow> error + State" where
  "closeCancelLoyaltyPayment env s pid secret confirm =
     (let p = loyaltyPayments s pid in
      if status p \<noteq> OPENED_CANCEL then Inl (Revert ''1533'')
      else if secretLock p \<noteq> keccak256 env [abi_bytes32 secret] then Inl (Revert ''1505'')
      else if confirm then
        (case transferToken (ledgerContract s) (temporaryAddress s) (systemAccount s) (feeToken p) of
           Inl e \<Rightarrow> Inl e
         | Inr L1 \<Rightarrow>
        (case checked_add (paidPoint p) (feePoint p) of
           Inl e \<Rightarrow> Inl e
         | Inr totalPoint \<Rightarrow>
        (let L2 = addPointBalance L1 (account p) totalPoint;
             balance = pointBalanceOf L2 (account p);
             S1 = subUsedAmount (shopContract s) (shopId p) (usedValueShop p) (purchaseId p) pid;
             s1 = s\<lparr>ledgerContract := L2, shopContract := S1,
                    loyaltyPayments := (loyaltyPayments s)(pid := p\<lparr>status := CLOSED_CANCEL\<rparr>)\<rparr>
         in Inr (emitLoyaltyPaymentEvent s1 pid balance))))
      else
        (case transferToken (ledgerContract s) (temporaryAddress s)
                (getPaymentFeeAccount (ledgerContract s)) (feeToken p) of
           Inl e \<Rightarrow> Inl e
         | Inr L1 \<Rightarrow>
        (case checked_add (paidPoint p) (feePoint p) of
           Inl e \<Rightarrow> Inl e
         | Inr totalPoint \<Rightarrow>
        (case subPointBalance L1 (temporaryAddress s) totalPoint of
           Inl e \<Rightarrow> Inl e
         | Inr L2 \<Rightarrow>
        (let balance = pointBalanceOf L2 (account p);
             s1 = s\<lparr>ledgerContract := L2,
                    loyaltyPayments := (loyaltyPayments s)(pid := p\<lparr>status := FAILED_CANCEL\<rparr>)\<rparr>
         in Inr (emitLoyaltyPaymentEvent s1 pid balance))))))"

definition loyaltyPaymentOf :: "State \<Rightarrow> bytes32 \<Rightarrow> LoyaltyPaymentData" where
  "loyaltyPaymentOf s pid = loyaltyPayments s pid"

definition isAvailablePaymentId :: "State \<Rightarrow> bytes32 \<Rightarrow> bool" where
  "isAvailablePaymentId s pid = (if status (loyaltyPayments s pid) = INVALID then True else False)"

section \<open>The point supply\<close>

text \<open>
  The total of the point balances over a list of accounts: the measure of the claim
  that points are neither created nor destroyed.
\<close>

definition pointSupply :: "State \<Rightarrow> address list \<Rightarrow> uint256" where
  "pointSupply s accounts = sum_list (map (pointBalances (ledgerContract s)) accounts)"

section \<open>A concrete setting\<close>

text \<open>
  The scenario of section 8 of the specification: conversion rate 1:1, a fee of 1\%
  (100 basis points), payer \<open>10\<close> with 1000 points, a shop \<open>1\<close> owned by account \<open>20\<close>
  with delegate \<open>30\<close>, system account \<open>40\<close>, fee-collection account \<open>50\<close>, and the
  holding account \<open>address(0x0)\<close> that \<open>initialize\<close> assigns. The hash and the
  signatures are stand-ins: a signature is the pair of its signer and the signed
  digest, and recovering it against another digest yields an unrelated address.
\<close>

fun abi_code :: "abi \<Rightarrow> nat" where
  "abi_code (abi_bytes32 x) = x"
| "abi_code (abi_string x) = length x"
| "abi_code (abi_uint256 x) = x"
| "abi_code (abi_address x) = x"

definition example_keccak256 :: "abi list \<Rightarrow> bytes32" where
  "example_keccak256 xs = foldl (\<lambda>h x. 31 * h + abi_code x + 1) 7 xs"

definition example_recover :: "bytes32 \<Rightarrow> bytes \<Rightarrow> address option" where
  "example_recover h sig =
     (case sig of
        [a, m] \<Rightarrow> if m = h then Some a else Some (a + m + h + 1)
      | _ \<Rightarrow> None)"

definition example_sign :: "address \<Rightarrow> abi list \<Rightarrow> bytes" where
  "example_sign a xs = [a, example_keccak256 xs]"

definition example_env :: Env where
  "example_env =
     \<lparr>chainid = 1, block_timestamp = 1000,
      keccak256 = example_keccak256,
      toEthSignedMessageHash = (\<lambda>h. h),
      ECDSA_recover = example_recover,
      convertCurrencyToPoint = (\<lambda>v c. v),
      convertPointToToken = (\<lambda>v. v),
      convertCurrency = (\<lambda>v c c'. v),
      zeroGWEI = (\<lambda>v. v)\<rparr>"

definition empty_payment :: LoyaltyPaymentData where
  "empty_payment =
     \<lparr>paymentId = 0, purchaseId = [], currency = [], shopId = 0, account = 0,
      secretLock = 0, timestamp = 0, paidPoint = 0, paidToken = 0, paidValue = 0,
      feePoint = 0, feeToken = 0, feeValue = 0, usedValueShop = 0, status = INVALID\<rparr>"

definition example_shop :: ShopData where
  "example_shop =
     \<lparr>shop_status = ACTIVE, shop_currency = ''krw'', shop_account = 20, shop_delegator = 30\<rparr>"

definition empty_shop :: ShopData where
  "empty_shop =
     \<lparr>shop_status = SHOP_INVALID, shop_currency = [], shop_account = 0, shop_delegator = 0\<rparr>"

text \<open>
  The payer's request: payment \<open>7\<close> of amount 100 at shop \<open>1\<close>, locked with the hash
  of the secret \<open>5\<close>, signed by the payer over the fields and the payer's nonce 0.
\<close>

definition example_input :: LoyaltyPaymentInputData where
  "example_input =
     \<lparr>in_paymentId = 7, in_purchaseId = ''p1'', in_amount = 100, in_currency = ''krw'',
      in_shopId = 1, in_account = 10,
      in_signature = example_sign 10
        [abi_bytes32 7, abi_string ''p1'', abi_uint256 100, abi_string ''krw'',
         abi_bytes32 1, abi_address 10, abi_uint256 1, abi_uint256 0],
      in_secretLock = example_keccak256 [abi_bytes32 5]\<rparr>"

text \<open>Balances and nonces given by a table; an account not listed has 0.\<close>

definition table :: "(address \<times> uint256) list \<Rightarrow> address \<Rightarrow> uint256" where
  "table xs a = (case map_of xs a of None \<Rightarrow> 0 | Some v \<Rightarrow> v)"

text \<open>
  The record of payment \<open>7\<close> once opened, with its secret lock, the value credited to
  the shop and its status; and the world around it, with the point balances, token
  balances and nonces, the used-amount ledger and the events so far.
\<close>

definition example_payment :: "bytes32 \<Rightarrow> uint256 \<Rightarrow> LoyaltyPaymentStatus \<Rightarrow> LoyaltyPaymentData" where
  "example_payment lock used st =
     \<lparr>paymentId = 7, purchaseId = ''p1'', currency = ''krw'', shopId = 1, account = 10,
      secretLock = lock, timestamp = 1000, paidPoint = 100, paidToken = 100, paidValue = 100,
      feePoint = 1, feeToken = 1, feeValue = 1, usedValueShop = used, status = st\<rparr>"

definition example_world ::
  "LoyaltyPaymentData \<Rightarrow> (address \<times> uint256) list \<Rightarrow> (address \<times> uint256) list
     \<Rightarrow> (address \<times> uint256) list \<Rightarrow> usage list \<Rightarrow> (LoyaltyPaymentData \<times> uint256) list \<Rightarrow> State" where
  "example_world p points tokens nonces used evs =
     \<lparr>loyaltyPayments = (\<lambda>i. if i = 7 then p else empty_payment),
      temporaryAddress = 0,
      systemAccount = 40,
      ledgerContract =
        \<lparr>pointBalances = table points, tokenBalances = table tokens, nonce = table nonces,
         paymentFee = 100, paymentFeeAccount = 50\<rparr>,
      shopContract = \<lparr>shops = (\<lambda>i. if i = 1 then example_shop else empty_shop), usedAmounts = used\<rparr>,
      events = evs\<rparr>"

text \<open>Before the payment: the payer has 1000 points, the system account 5 tokens.\<close>

definition example_initial :: State where
  "example_initial = example_world empty_payment [(10, 1000)] [(40, 5)] [] [] []"

text \<open>After \<open>openNewLoyaltyPayment\<close>: 101 points are in holding.\<close>

definition example_opened :: State where
  "example_opened =
     example_world (example_payment 223 0 OPENED_PAYMENT)
       [(10, 899), (0, 101)] [(40, 5)] [(10, 1)] []
       [(example_payment 223 0 OPENED_PAYMENT, 899)]"

text \<open>After \<open>closeNewLoyaltyPayment\<close> with \<open>confirm = true\<close>: the payment is settled.\<close>

definition example_settled :: State where
  "example_settled =
     example_world (example_payment 223 100 CLOSED_PAYMENT)
       [(10, 899), (0, 0)] [(40, 4), (50, 1)] [(10, 1)] [AddUsed 1 100 ''p1'' 7]
       [(example_payment 223 0 OPENED_PAYMENT, 899),
        (example_payment 223 100 CLOSED_PAYMENT, 899)]"

text \<open>
  After \<open>openCancelLoyaltyPayment\<close> signed by the shop's account \<open>20\<close>, with the new
  lock 227, the hash of the secret \<open>9\<close>.
\<close>

definition example_cancelling :: State where
  "example_cancelling =
     example_world (example_payment 227 100 OPENED_CANCEL)
       [(10, 899), (0, 101)] [(40, 4), (50, 0), (0, 1)] [(10, 1), (20, 1)]
       [AddUsed 1 100 ''p1'' 7]
       [(example_payment 223 0 OPENED_PAYMENT, 899),
        (example_payment 223 100 CLOSED_PAYMENT, 899),
        (example_payment 227 100 OPENED_CANCEL, 899)]"

text \<open>The same payment opened where the system account holds no token.\<close>

definition example_opened_unfunded :: State where
  "example_opened_unfunded =
     example_world (example_payment 223 0 OPENED_PAYMENT)
       [(10, 899), (0, 101)] [] [(10, 1)] []
       [(example_payment 223 0 OPENED_PAYMENT, 899)]"

text \<open>Its settlement: no fee reached the fee-collection account.\<close>

definition example_settled_unfunded :: State where
  "example_settled_unfunded =
     example_world (example_payment 223 100 CLOSED_PAYMENT)
       [(10, 899), (0, 0)] [] [(10, 1)] [AddUsed 1 100 ''p1'' 7]
       [(example_payment 223 0 OPENED_PAYMENT, 899),
        (example_payment 223 100 CLOSED_PAYMENT, 899)]"

text \<open>The cancel request of payment \<open>7\<close> signed by \<open>a\<close> over \<open>a\<close>'s nonce \<open>n\<close>.\<close>

definition example_cancel_signature :: "address \<Rightarrow> uint256 \<Rightarrow> bytes" where
  "example_cancel_signature a n =
     example_sign a [abi_bytes32 7, abi_string ''p1'', abi_address a, abi_uint256 1, abi_uint256 n]"

section \<open>Evaluation and basic facts\<close>

lemmas example_defs =
  example_world_def example_payment_def example_env_def example_input_def
  example_keccak256_def example_sign_def example_recover_def example_shop_def empty_shop_def
  empty_payment_def table_def example_cancel_signature_def

lemmas ledger_defs =
  pointBalanceOf_def tokenBalanceOf_def nonceOf_def getPaymentFee_def getPaymentFeeAccount_def
  increaseNonce_def addPointBalance_def subPointBalance_def addTokenBalance_def
  subTokenBalance_def transferToken_def shopOf_def addUsedAmount_def subUsedAmount_def

lemmas op_defs =
  openNewLoyaltyPayment_def openNewLoyaltyPaymentPoint_def closeNewLoyaltyPayment_def
  openCancelLoyaltyPayment_def openCancelSignatureCheck_def closeCancelLoyaltyPayment_def
  cancelStatusGuard_def recoverSigner_def emitLoyaltyPaymentEvent_def checked_add_def
  checked_mul_def MAX_UINT256_def AddressZero_def Let_def

text \<open>The scenario's states follow one another under the operations.\<close>

lemma example_opened_reached:
  "openNewLoyaltyPayment example_env example_initial example_input = Inr example_opened"
  by (simp add: example_initial_def example_opened_def example_defs ledger_defs op_defs fun_eq_iff)

lemma example_settled_reached:
  "closeNewLoyaltyPayment example_env example_opened 7 5 True = Inr example_settled"
  by (simp add: example_settled_def example_opened_def example_defs ledger_defs op_defs fun_eq_iff)

lemma example_cancelling_reached:
  "openCancelLoyaltyPayment example_env example_settled 7 227 (example_cancel_signature 20 0)
     = Inr example_cancelling"
  by (simp add: example_settled_def example_cancelling_def example_defs ledger_defs op_defs
      fun_eq_iff)

lemma example_settled_unfunded_reached:
  "closeNewLoyaltyPayment example_env example_opened_unfunded 7 5 True
     = Inr example_settled_unfunded"
  by (simp add: example_settled_unfunded_def example_opened_unfunded_def example_defs ledger_defs
      op_defs fun_eq_iff)

lemma example_owner_signature_check:
  "openCancelSignatureCheck example_env example_settled 7 (example_cancel_signature 20 0)
     = Inr (True, False)"
  by (simp add: example_settled_def example_defs ledger_defs openCancelSignatureCheck_def
      recoverSigner_def AddressZero_def Let_def)

lemma example_owner_signature_check_unfunded:
  "openCancelSignatureCheck example_env example_settled_unfunded 7 (example_cancel_signature 20 0)
     = Inr (True, False)"
  by (simp add: example_settled_unfunded_def example_defs ledger_defs openCancelSignatureCheck_def
      recoverSigner_def AddressZero_def Let_def)

lemma example_supply:
  "pointSupply example_initial [10, 0, 20, 30, 40, 50] = 1000"
  "pointSupply example_opened [10, 0, 20, 30, 40, 50] = 1000"
  "pointSupply example_settled [10, 0, 20, 30, 40, 50] = 899"
  "pointSupply example_cancelling [10, 0, 20, 30, 40, 50] = 1000"
  by (simp_all add: pointSupply_def example_initial_def example_opened_def example_settled_def
      example_cancelling_def example_world_def table_def)

lemma cancelStatusGuard_holds: "cancelStatusGuard st"
  by (cases st) (simp_all add: cancelStatusGuard_def)

subsection \<open>Opening a payment\<close>

lemma openNewPoint_result:
  assumes "openNewLoyaltyPaymentPoint env s d = Inr s'"
    and "pp = convertCurrencyToPoint env (in_amount d) (in_currency d)"
    and "fp = convertCurrencyToPoint env
                (zeroGWEI env (in_amount d * paymentFee (ledgerContract s) div 10000))
                (in_currency d)"
  shows "pp + fp \<le> MAX_UINT256 \<and> pp + fp \<le> pointBalances (ledgerContract s) (in_account d)
          \<and> paidPoint (loyaltyPayments s' (in_paymentId d)) = pp
          \<and> feePoint (loyaltyPayments s' (in_paymentId d)) = fp
          \<and> account (loyaltyPayments s' (in_paymentId d)) = in_account d
          \<and> secretLock (loyaltyPayments s' (in_paymentId d)) = in_secretLock d
          \<and> status (loyaltyPayments s' (in_paymentId d)) = OPENED_PAYMENT
          \<and> temporaryAddress s' = temporaryAddress s
          \<and> nonce (ledgerContract s') = nonce (ledgerContract s)
          \<and> pointBalances (ledgerContract s') =
              ((pointBalances (ledgerContract s))
                 (in_account d := pointBalances (ledgerContract s) (in_account d) - (pp + fp)))
                 (temporaryAddress s :=
                    ((pointBalances (ledgerContract s))
                       (in_account d := pointBalances (ledgerContract s) (in_account d) - (pp + fp)))
                      (temporaryAddress s) + (pp + fp))"
  using assms
  by (auto simp: openNewLoyaltyPaymentPoint_def Let_def checked_add_def checked_mul_def
      subPointBalance_def addPointBalance_def pointBalanceOf_def emitLoyaltyPaymentEvent_def
      getPaymentFee_def
      split: if_splits sum.splits)

lemma openNewPoint_succeeds:
  assumes "in_amount d * paymentFee (ledgerContract s) \<le> MAX_UINT256"
    and "pp = convertCurrencyToPoint env (in_amount d) (in_currency d)"
    and "fp = convertCurrencyToPoint env
                (zeroGWEI env (in_amount d * paymentFee (ledgerContract s) div 10000))
                (in_currency d)"
    and "pp + fp \<le> pointBalances (ledgerContract s) (in_account d)"
    and "pointBalances (ledgerContract s) (in_account d) \<le> MAX_UINT256"
  shows "\<exists>s'. openNewLoyaltyPaymentPoint env s d = Inr s'"
  using assms
  by (simp add: openNewLoyaltyPaymentPoint_def Let_def checked_add_def checked_mul_def
      subPointBalance_def pointBalanceOf_def getPaymentFee_def)

lemma openNew_result:
  assumes "openNewLoyaltyPayment env s d = Inr s'"
  shows "\<exists>pp fp. pp + fp \<le> MAX_UINT256
          \<and> pp + fp \<le> pointBalances (ledgerContract s) (in_account d)
          \<and> paidPoint (loyaltyPayments s' (in_paymentId d)) = pp
          \<and> feePoint (loyaltyPayments s' (in_paymentId d)) = fp
          \<and> account (loyaltyPayments s' (in_paymentId d)) = in_account d
          \<and> secretLock (loyaltyPayments s' (in_paymentId d)) = in_secretLock d
          \<and> status (loyaltyPayments s' (in_paymentId d)) = OPENED_PAYMENT
          \<and> temporaryAddress s' = temporaryAddress s
          \<and> pointBalances (ledgerContract s') =
              ((pointBalances (ledgerContract s))
                 (in_account d := pointBalances (ledgerContract s) (in_account d) - (pp + fp)))
                 (temporaryAddress s :=
                    ((pointBalances (ledgerContract s))
                       (in_account d := pointBalances (ledgerContract s) (in_account d) - (pp + fp)))
                      (temporaryAddress s) + (pp + fp))"
proof -
  let ?s0 = "s\<lparr>ledgerContract := increaseNonce (ledgerContract s) (in_account d)\<rparr>"
  have l0: "pointBalances (ledgerContract ?s0) = pointBalances (ledgerContract s)"
       "temporaryAddress ?s0 = temporaryAddress s"
    by (simp_all add: increaseNonce_def)
  from assms have "openNewLoyaltyPaymentPoint env ?s0 d = Inr s'"
    by (auto simp: openNewLoyaltyPayment_def Let_def split: if_splits sum.splits)
  from openNewPoint_result [OF this refl refl, unfolded l0] show ?thesis
    by blast
qed

subsection \<open>Refunding an opened payment\<close>

lemma closeNew_refund_result:
  assumes "status (loyaltyPayments s pid) = OPENED_PAYMENT"
      and "secretLock (loyaltyPayments s pid) = keccak256 env [abi_bytes32 secret]"
      and "paidPoint (loyaltyPayments s pid) + feePoint (loyaltyPayments s pid) \<le> MAX_UINT256"
      and "paidPoint (loyaltyPayments s pid) + feePoint (loyaltyPayments s pid)
             \<le> pointBalances (ledgerContract s) (temporaryAddress s)"
  shows "\<exists>s'. closeNewLoyaltyPayment env s pid secret False = Inr s'
          \<and> status (loyaltyPayments s' pid) = FAILED_PAYMENT
          \<and> pointBalances (ledgerContract s') =
              ((pointBalances (ledgerContract s))
                 (temporaryAddress s := pointBalances (ledgerContract s) (temporaryAddress s)
                    - (paidPoint (loyaltyPayments s pid) + feePoint (loyaltyPayments s pid))))
                 (account (loyaltyPayments s pid) :=
                    ((pointBalances (ledgerContract s))
                       (temporaryAddress s := pointBalances (ledgerContract s) (temporaryAddress s)
                          - (paidPoint (loyaltyPayments s pid) + feePoint (loyaltyPayments s pid))))
                      (account (loyaltyPayments s pid))
                    + (paidPoint (loyaltyPayments s pid) + feePoint (loyaltyPayments s pid)))"
  using assms
  by (simp add: closeNewLoyaltyPayment_def Let_def checked_add_def subPointBalance_def
      addPointBalance_def pointBalanceOf_def emitLoyaltyPaymentEvent_def)

text \<open>
  A debit of \<open>n\<close> from \<open>a\<close> credited to \<open>t\<close>, followed by a debit of \<open>n\<close> from \<open>t\<close>
  credited to \<open>a\<close>, leaves \<open>a\<close> where it was, also when \<open>a\<close> and \<open>t\<close> are one account.
\<close>

lemma escrow_roundtrip:
  fixes f :: "address \<Rightarrow> uint256"
  assumes "n \<le> f a"
    and g: "g = (f(a := f a - n))(t := (f(a := f a - n)) t + n)"
  shows "((g(t := g t - n))(a := (g(t := g t - n)) a + n)) a = f a"
proof (cases "a = t")
  case True
  with assms(1) show ?thesis by (simp add: g)
next
  case False
  with assms(1) show ?thesis by (simp add: g)
qed

subsection \<open>What a successful call has done\<close>

lemma openCancel_short_aborts:
  assumes "tokenBalances (ledgerContract s) (paymentFeeAccount (ledgerContract s))
            < feeToken (loyaltyPayments s pid)"
  shows "\<exists>e. openCancelLoyaltyPayment env s pid newLock sig = Inl e"
  using assms
  by (auto simp: openCancelLoyaltyPayment_def Let_def tokenBalanceOf_def
      getPaymentFeeAccount_def increaseNonce_def
      split: if_splits sum.splits prod.splits)

lemma openCancel_result:
  assumes "openCancelLoyaltyPayment env s pid newLock sig = Inr s'"
  shows "pointBalances (ledgerContract s')
           = (pointBalances (ledgerContract s))
               (temporaryAddress s := pointBalances (ledgerContract s) (temporaryAddress s)
                  + (paidPoint (loyaltyPayments s pid) + feePoint (loyaltyPayments s pid)))
         \<and> nonce (ledgerContract s')
           = (nonce (ledgerContract s))
               (shop_account (shops (shopContract s) (shopId (loyaltyPayments s pid))) :=
                  nonce (ledgerContract s)
                    (shop_account (shops (shopContract s) (shopId (loyaltyPayments s pid)))) + 1)
         \<and> (\<exists>pass1 pass2. openCancelSignatureCheck env s pid sig = Inr (pass1, pass2)
                \<and> (pass1 \<or> pass2))
         \<and> shopContract s' = shopContract s
         \<and> temporaryAddress s' = temporaryAddress s"
  using assms
  by (auto simp: openCancelLoyaltyPayment_def Let_def checked_add_def tokenBalanceOf_def
      getPaymentFeeAccount_def increaseNonce_def transferToken_def subTokenBalance_def
      addTokenBalance_def addPointBalance_def pointBalanceOf_def emitLoyaltyPaymentEvent_def
      shopOf_def
      split: if_splits sum.splits prod.splits)

lemma closeNew_settle_result:
  assumes "closeNewLoyaltyPayment env s pid secret True = Inr s'"
  shows "paidPoint (loyaltyPayments s pid) + feePoint (loyaltyPayments s pid)
           \<le> pointBalances (ledgerContract s) (temporaryAddress s)
         \<and> pointBalances (ledgerContract s')
           = (pointBalances (ledgerContract s))
               (temporaryAddress s := pointBalances (ledgerContract s) (temporaryAddress s)
                  - (paidPoint (loyaltyPayments s pid) + feePoint (loyaltyPayments s pid)))"
  using assms
  by (auto simp: closeNewLoyaltyPayment_def Let_def checked_add_def subPointBalance_def
      tokenBalanceOf_def pointBalanceOf_def emitLoyaltyPaymentEvent_def subTokenBalance_def
      addTokenBalance_def
      split: if_splits sum.splits)

lemma closeNew_refund_effect:
  assumes "closeNewLoyaltyPayment env s pid secret False = Inr s'"
  shows "paidPoint (loyaltyPayments s pid) + feePoint (loyaltyPayments s pid)
           \<le> pointBalances (ledgerContract s) (temporaryAddress s)
         \<and> pointBalances (ledgerContract s') =
              ((pointBalances (ledgerContract s))
                 (temporaryAddress s := pointBalances (ledgerContract s) (temporaryAddress s)
                    - (paidPoint (loyaltyPayments s pid) + feePoint (loyaltyPayments s pid))))
                 (account (loyaltyPayments s pid) :=
                    ((pointBalances (ledgerContract s))
                       (temporaryAddress s := pointBalances (ledgerContract s) (temporaryAddress s)
                          - (paidPoint (loyaltyPayments s pid) + feePoint (loyaltyPayments s pid))))
                      (account (loyaltyPayments s pid))
                    + (paidPoint (loyaltyPayments s pid) + feePoint (loyaltyPayments s pid)))"
  using assms
  by (auto simp: closeNewLoyaltyPayment_def Let_def checked_add_def subPointBalance_def
      addPointBalance_def pointBalanceOf_def emitLoyaltyPaymentEvent_def
      split: if_splits sum.splits)

lemma closeCancel_reject_result:
  assumes "closeCancelLoyaltyPayment env s pid secret False = Inr s'"
  shows "paidPoint (loyaltyPayments s pid) + feePoint (loyaltyPayments s pid)
           \<le> pointBalances (ledgerContract s) (temporaryAddress s)
         \<and> feeToken (loyaltyPayments s pid) \<le> tokenBalances (ledgerContract s) (temporaryAddress s)
         \<and> pointBalances (ledgerContract s')
           = (pointBalances (ledgerContract s))
               (temporaryAddress s := pointBalances (ledgerContract s) (temporaryAddress s)
                  - (paidPoint (loyaltyPayments s pid) + feePoint (loyaltyPayments s pid)))
         \<and> tokenBalances (ledgerContract s')
           = ((tokenBalances (ledgerContract s))
                (temporaryAddress s := tokenBalances (ledgerContract s) (temporaryAddress s)
                   - feeToken (loyaltyPayments s pid)))
               (paymentFeeAccount (ledgerContract s) :=
                  ((tokenBalances (ledgerContract s))
                     (temporaryAddress s := tokenBalances (ledgerContract s) (temporaryAddress s)
                        - feeToken (loyaltyPayments s pid)))
                    (paymentFeeAccount (ledgerContract s))
                  + feeToken (loyaltyPayments s pid))
         \<and> nonce (ledgerContract s') = nonce (ledgerContract s)
         \<and> shopContract s' = shopContract s
         \<and> loyaltyPayments s' = (loyaltyPayments s)(pid := (loyaltyPayments s pid)\<lparr>status := FAILED_CANCEL\<rparr>)
         \<and> events s' = events s @ [((loyaltyPayments s pid)\<lparr>status := FAILED_CANCEL\<rparr>,
               pointBalances (ledgerContract s') (account (loyaltyPayments s pid)))]"
  using assms
  by (auto simp: closeCancelLoyaltyPayment_def Let_def checked_add_def subPointBalance_def
      transferToken_def subTokenBalance_def addTokenBalance_def getPaymentFeeAccount_def
      pointBalanceOf_def emitLoyaltyPaymentEvent_def
      split: if_splits sum.splits)


lemma openCancel_consumes_owner_nonce:
  assumes "openCancelLoyaltyPayment env s pid newLock sig = Inr s'"
    and "a \<noteq> shop_account (shops (shopContract s) (shopId (loyaltyPayments s pid)))"
  shows "nonce (ledgerContract s') a = nonce (ledgerContract s) a"
    and "nonce (ledgerContract s')
           (shop_account (shops (shopContract s) (shopId (loyaltyPayments s pid))))
         = nonce (ledgerContract s)
             (shop_account (shops (shopContract s) (shopId (loyaltyPayments s pid)))) + 1"
  using openCancel_result [OF assms(1)] assms(2) by simp_all

lemma closeCancel_accept_result:
  assumes "closeCancelLoyaltyPayment env s pid secret True = Inr s'"
  shows "pointBalances (ledgerContract s')
           = (pointBalances (ledgerContract s))
               (account (loyaltyPayments s pid) :=
                  pointBalances (ledgerContract s) (account (loyaltyPayments s pid))
                  + (paidPoint (loyaltyPayments s pid) + feePoint (loyaltyPayments s pid)))"
  using assms
  by (auto simp: closeCancelLoyaltyPayment_def Let_def checked_add_def
      transferToken_def subTokenBalance_def addTokenBalance_def addPointBalance_def
      pointBalanceOf_def emitLoyaltyPaymentEvent_def subUsedAmount_def
      split: if_splits sum.splits)


subsection \<open>Sums of balances under an update\<close>

lemma sum_list_map_upd_notin:
  "a \<notin> set xs \<Longrightarrow> sum_list (map (f(a := v)) xs) = sum_list (map f xs)"
  by (induction xs) auto

lemma sum_list_map_upd:
  fixes f :: "address \<Rightarrow> nat"
  shows "distinct xs \<Longrightarrow> a \<in> set xs \<Longrightarrow>
         sum_list (map (f(a := v)) xs) + f a = sum_list (map f xs) + v"
  by (induction xs) (auto simp: sum_list_map_upd_notin)

lemma supply_credit:
  fixes f :: "address \<Rightarrow> nat"
  assumes "distinct xs" and "a \<in> set xs"
  shows "sum_list (map (f(a := f a + n)) xs) = sum_list (map f xs) + n"
  using sum_list_map_upd [OF assms, of f "f a + n"] by simp

lemma supply_debit:
  fixes f :: "address \<Rightarrow> nat"
  assumes "distinct xs" and "a \<in> set xs" and "n \<le> f a"
  shows "sum_list (map (f(a := f a - n)) xs) + n = sum_list (map f xs)"
  using sum_list_map_upd [OF assms(1,2), of f "f a - n"] assms(3) by simp

lemma supply_transfer:
  fixes f :: "address \<Rightarrow> nat"
  assumes "distinct xs" and "a \<in> set xs" and "t \<in> set xs" and "n \<le> f a"
    and g: "g = f(a := f a - n)"
  shows "sum_list (map (g(t := g t + n)) xs) = sum_list (map f xs)"
proof -
  have "sum_list (map (g(t := g t + n)) xs) = sum_list (map g xs) + n"
    by (rule supply_credit [OF assms(1) assms(3)])
  also have "\<dots> = sum_list (map f xs)"
    unfolding g using assms(1) assms(2) assms(4) by (rule supply_debit)
  finally show ?thesis .
qed

section \<open>The status guard of the cancel request\<close>

text \<open>
  Claim C1. The status guard of \<open>openCancelLoyaltyPayment\<close>,
  \<open>(status != CLOSED_PAYMENT) || (status != FAILED_CANCEL)\<close>, is true for every status
  value, so the error \<open>1532\<close> of its failing branch is never returned: whatever the
  record, the environment and the arguments, the call is not rejected on account of the
  record's status.
\<close>

theorem openCancel_status_guard_always_true:
  "cancelStatusGuard st
   \<and> openCancelLoyaltyPayment env s pid newLock sig \<noteq> Inl (Revert ''1532'')"
proof
  show "cancelStatusGuard st"
    by (rule cancelStatusGuard_holds)
  show "openCancelLoyaltyPayment env s pid newLock sig \<noteq> Inl (Revert ''1532'')"
    using cancelStatusGuard_holds [of "status (loyaltyPayments s pid)"]
    by (auto simp: openCancelLoyaltyPayment_def Let_def checked_add_def
        openCancelSignatureCheck_def recoverSigner_def transferToken_def subTokenBalance_def
        split: if_splits sum.splits option.splits prod.splits)
qed

theorem openCancel_status_guard_always_true_witness:
  "cancelStatusGuard INVALID
   \<and> openCancelLoyaltyPayment example_env example_initial 7 227 (example_cancel_signature 20 0)
       \<noteq> Inl (Revert ''1532'')"
  by (rule openCancel_status_guard_always_true)

section \<open>The cancellation window\<close>

text \<open>
  Claim C8. When \<open>openCancelLoyaltyPayment\<close> is called strictly after the seven-day
  window counted from the record's timestamp (the block time, a \<open>uint256\<close>, exceeds
  \<open>timestamp + 86400 * 7\<close>), the call fails with the error \<open>1534\<close> and leaves the state
  as it was, for every signature and every way signatures are recovered.
\<close>

theorem openCancel_after_window_fails:
  assumes "block_timestamp env \<le> MAX_UINT256"
      and "timestamp (loyaltyPayments s pid) + 86400 * 7 < block_timestamp env"
  shows "openCancelLoyaltyPayment env s pid newLock sig = Inl (Revert ''1534'')
         \<and> commit s (openCancelLoyaltyPayment env s pid newLock sig) = s"
proof -
  have "openCancelLoyaltyPayment env s pid newLock sig = Inl (Revert ''1534'')"
    using assms cancelStatusGuard_holds [of "status (loyaltyPayments s pid)"]
    by (simp add: openCancelLoyaltyPayment_def Let_def checked_add_def)
  then show ?thesis by (simp add: commit_def)
qed

theorem openCancel_after_window_fails_witness:
  "block_timestamp (example_env\<lparr>block_timestamp := 605801\<rparr>) \<le> MAX_UINT256
   \<and> timestamp (loyaltyPayments example_settled 7) + 86400 * 7
       < block_timestamp (example_env\<lparr>block_timestamp := 605801\<rparr>)
   \<and> openCancelLoyaltyPayment (example_env\<lparr>block_timestamp := 605801\<rparr>) example_settled 7 227
        (example_cancel_signature 20 0) = Inl (Revert ''1534'')
   \<and> commit example_settled
        (openCancelLoyaltyPayment (example_env\<lparr>block_timestamp := 605801\<rparr>) example_settled 7 227
           (example_cancel_signature 20 0)) = example_settled"
proof -
  have h1: "block_timestamp (example_env\<lparr>block_timestamp := 605801\<rparr>) \<le> MAX_UINT256"
    by (simp add: MAX_UINT256_def)
  have h2: "timestamp (loyaltyPayments example_settled 7) + 86400 * 7
              < block_timestamp (example_env\<lparr>block_timestamp := 605801\<rparr>)"
    by (simp add: example_settled_def example_world_def example_payment_def)
  from openCancel_after_window_fails [OF h1 h2] h1 h2 show ?thesis
    by blast
qed

section \<open>The secret lock\<close>

text \<open>
  Claim C6. When the hash of the revealed secret differs from the record's
  \<open>secretLock\<close>, both \<open>closeNewLoyaltyPayment\<close> and \<open>closeCancelLoyaltyPayment\<close> fail, for
  either value of \<open>confirm\<close>, and the state (the record's status and every balance) is
  as before the call; a call that returns a new state therefore had the matching secret.
\<close>

theorem close_with_wrong_secret_fails:
  assumes "keccak256 env [abi_bytes32 secret] \<noteq> secretLock (loyaltyPayments s pid)"
  shows "(\<exists>e. closeNewLoyaltyPayment env s pid secret confirm = Inl e)
         \<and> commit s (closeNewLoyaltyPayment env s pid secret confirm) = s
         \<and> (\<exists>e. closeCancelLoyaltyPayment env s pid secret confirm = Inl e)
         \<and> commit s (closeCancelLoyaltyPayment env s pid secret confirm) = s"
proof -
  have a: "closeNewLoyaltyPayment env s pid secret confirm =
           Inl (Revert (if status (loyaltyPayments s pid) = OPENED_PAYMENT
                        then ''1505'' else ''1531''))"
    using assms by (simp add: closeNewLoyaltyPayment_def Let_def)
  have b: "closeCancelLoyaltyPayment env s pid secret confirm =
           Inl (Revert (if status (loyaltyPayments s pid) = OPENED_CANCEL
                        then ''1505'' else ''1533''))"
    using assms by (simp add: closeCancelLoyaltyPayment_def Let_def)
  show ?thesis
    unfolding a b by (simp add: commit_def)
qed

theorem close_with_wrong_secret_fails_witness:
  "keccak256 example_env [abi_bytes32 6] \<noteq> secretLock (loyaltyPayments example_opened 7)
   \<and> closeNewLoyaltyPayment example_env example_opened 7 6 True = Inl (Revert ''1505'')
   \<and> commit example_opened (closeNewLoyaltyPayment example_env example_opened 7 6 True)
       = example_opened
   \<and> keccak256 example_env [abi_bytes32 6] \<noteq> secretLock (loyaltyPayments example_cancelling 7)
   \<and> closeCancelLoyaltyPayment example_env example_cancelling 7 6 False = Inl (Revert ''1505'')
   \<and> commit example_cancelling (closeCancelLoyaltyPayment example_env example_cancelling 7 6 False)
       = example_cancelling"
proof -
  have h1: "keccak256 example_env [abi_bytes32 6] \<noteq> secretLock (loyaltyPayments example_opened 7)"
    by (simp add: example_opened_def example_defs)
  have h2: "keccak256 example_env [abi_bytes32 6]
              \<noteq> secretLock (loyaltyPayments example_cancelling 7)"
    by (simp add: example_cancelling_def example_defs)
  have e1: "closeNewLoyaltyPayment example_env example_opened 7 6 True = Inl (Revert ''1505'')"
    by (simp add: example_opened_def example_defs closeNewLoyaltyPayment_def)
  have e2: "closeCancelLoyaltyPayment example_env example_cancelling 7 6 False
              = Inl (Revert ''1505'')"
    by (simp add: example_cancelling_def example_defs closeCancelLoyaltyPayment_def)
  from close_with_wrong_secret_fails [OF h1, of True]
       close_with_wrong_secret_fails [OF h2, of False] h1 h2 e1 e2
  show ?thesis by blast
qed

section \<open>Opening a payment\<close>

text \<open>
  Claim C5. For every call of \<open>openNewLoyaltyPayment\<close> whose preconditions hold (the
  record at \<open>paymentId\<close> is \<open>INVALID\<close>; the signature recovers to \<open>account\<close> over the
  request's fields, the chain id and the payer's nonce; the fee is computable, that is
  \<open>amount * fee\<close> fits a \<open>uint256\<close>; the payer's point balance, a \<open>uint256\<close>, is at least
  \<open>paidPoint + feePoint\<close>; the payer is not the holding account): the call succeeds, the
  record's status is \<open>OPENED_PAYMENT\<close>, the holding account's point balance has grown by
  exactly \<open>paidPoint + feePoint\<close>, the payer's has shrunk by exactly that amount, and the
  payer's nonce has grown by exactly 1.
\<close>

theorem openPayment_effects:
  assumes inv: "status (loyaltyPayments s (in_paymentId d)) = INVALID"
    and sig: "recoverSigner env
               (keccak256 env
                  [abi_bytes32 (in_paymentId d), abi_string (in_purchaseId d),
                   abi_uint256 (in_amount d), abi_string (in_currency d),
                   abi_bytes32 (in_shopId d), abi_address (in_account d),
                   abi_uint256 (chainid env),
                   abi_uint256 (nonce (ledgerContract s) (in_account d))])
               (in_signature d) = Inr (in_account d)"
    and fee: "in_amount d * paymentFee (ledgerContract s) \<le> MAX_UINT256"
    and pp: "pp = convertCurrencyToPoint env (in_amount d) (in_currency d)"
    and fp: "fp = convertCurrencyToPoint env
                (zeroGWEI env (in_amount d * paymentFee (ledgerContract s) div 10000)) (in_currency d)"
    and bal: "pp + fp \<le> pointBalances (ledgerContract s) (in_account d)"
    and u256: "pointBalances (ledgerContract s) (in_account d) \<le> MAX_UINT256"
    and other: "in_account d \<noteq> temporaryAddress s"
  shows "\<exists>s'. openNewLoyaltyPayment env s d = Inr s'
           \<and> status (loyaltyPayments s' (in_paymentId d)) = OPENED_PAYMENT
           \<and> paidPoint (loyaltyPayments s' (in_paymentId d)) = pp
           \<and> feePoint (loyaltyPayments s' (in_paymentId d)) = fp
           \<and> pointBalances (ledgerContract s') (temporaryAddress s')
               = pointBalances (ledgerContract s) (temporaryAddress s) + (pp + fp)
           \<and> pointBalances (ledgerContract s') (in_account d)
               = pointBalances (ledgerContract s) (in_account d) - (pp + fp)
           \<and> nonce (ledgerContract s') (in_account d)
               = nonce (ledgerContract s) (in_account d) + 1"
proof -
  let ?s0 = "s\<lparr>ledgerContract := increaseNonce (ledgerContract s) (in_account d)\<rparr>"
  have step: "openNewLoyaltyPayment env s d = openNewLoyaltyPaymentPoint env ?s0 d"
    using inv sig by (simp add: openNewLoyaltyPayment_def Let_def nonceOf_def)
  have l0: "paymentFee (ledgerContract ?s0) = paymentFee (ledgerContract s)"
       "pointBalances (ledgerContract ?s0) = pointBalances (ledgerContract s)"
       "temporaryAddress ?s0 = temporaryAddress s"
       "nonce (ledgerContract ?s0) (in_account d) = nonce (ledgerContract s) (in_account d) + 1"
    by (simp_all add: increaseNonce_def)
  from openNewPoint_succeeds [of d ?s0 pp env fp] fee pp fp bal u256
  obtain s' where r: "openNewLoyaltyPaymentPoint env ?s0 d = Inr s'"
    unfolding l0 by blast
  note res = openNewPoint_result [OF r, of pp fp, unfolded l0, OF pp fp]
  have hold: "pointBalances (ledgerContract s') (temporaryAddress s')
               = pointBalances (ledgerContract s) (temporaryAddress s) + (pp + fp)"
    using res other by simp
  have payer: "pointBalances (ledgerContract s') (in_account d)
               = pointBalances (ledgerContract s) (in_account d) - (pp + fp)"
    using res other by simp
  have n: "nonce (ledgerContract s') (in_account d) = nonce (ledgerContract s) (in_account d) + 1"
    using res l0(4) by simp
  show ?thesis
    using step r res hold payer n by auto
qed


theorem openPayment_effects_witness:
  "status (loyaltyPayments example_initial (in_paymentId example_input)) = INVALID
   \<and> in_amount example_input * paymentFee (ledgerContract example_initial) \<le> MAX_UINT256
   \<and> (100::nat) + 1 \<le> pointBalances (ledgerContract example_initial) (in_account example_input)
   \<and> pointBalances (ledgerContract example_initial) (in_account example_input) \<le> MAX_UINT256
   \<and> in_account example_input \<noteq> temporaryAddress example_initial
   \<and> (\<exists>s'. openNewLoyaltyPayment example_env example_initial example_input = Inr s'
           \<and> status (loyaltyPayments s' 7) = OPENED_PAYMENT
           \<and> paidPoint (loyaltyPayments s' 7) = 100
           \<and> feePoint (loyaltyPayments s' 7) = 1
           \<and> pointBalances (ledgerContract s') (temporaryAddress s') = 101
           \<and> pointBalances (ledgerContract s') 10 = 899
           \<and> nonce (ledgerContract s') 10 = 1)"
proof -
  have h1: "status (loyaltyPayments example_initial (in_paymentId example_input)) = INVALID"
    by (simp add: example_initial_def example_defs)
  have h2: "recoverSigner example_env
               (keccak256 example_env
                  [abi_bytes32 (in_paymentId example_input), abi_string (in_purchaseId example_input),
                   abi_uint256 (in_amount example_input), abi_string (in_currency example_input),
                   abi_bytes32 (in_shopId example_input), abi_address (in_account example_input),
                   abi_uint256 (chainid example_env),
                   abi_uint256 (nonce (ledgerContract example_initial) (in_account example_input))])
               (in_signature example_input) = Inr (in_account example_input)"
    by (simp add: example_initial_def example_defs recoverSigner_def)
  have h3: "in_amount example_input * paymentFee (ledgerContract example_initial) \<le> MAX_UINT256"
    by (simp add: example_initial_def example_defs MAX_UINT256_def)
  have h4: "(100::nat) = convertCurrencyToPoint example_env (in_amount example_input)
                (in_currency example_input)"
    by (simp add: example_defs)
  have h5: "(1::nat) = convertCurrencyToPoint example_env
                (zeroGWEI example_env
                   (in_amount example_input * paymentFee (ledgerContract example_initial) div 10000))
                (in_currency example_input)"
    by (simp add: example_initial_def example_defs)
  have h6: "(100::nat) + 1
              \<le> pointBalances (ledgerContract example_initial) (in_account example_input)"
    by (simp add: example_initial_def example_defs)
  have h7: "pointBalances (ledgerContract example_initial) (in_account example_input)
              \<le> MAX_UINT256"
    by (simp add: example_initial_def example_defs MAX_UINT256_def)
  have h8: "in_account example_input \<noteq> temporaryAddress example_initial"
    by (simp add: example_initial_def example_defs)
  have v: "in_paymentId example_input = 7" "in_account example_input = 10"
       "pointBalances (ledgerContract example_initial) 10 = 1000"
       "pointBalances (ledgerContract example_initial) (temporaryAddress example_initial) = 0"
       "nonce (ledgerContract example_initial) 10 = 0"
    by (simp_all add: example_initial_def example_defs)
  from openPayment_effects [OF h1 h2 h3 h4 h5 h6 h7 h8]
  have "\<exists>s'. openNewLoyaltyPayment example_env example_initial example_input = Inr s'
           \<and> status (loyaltyPayments s' 7) = OPENED_PAYMENT
           \<and> paidPoint (loyaltyPayments s' 7) = 100
           \<and> feePoint (loyaltyPayments s' 7) = 1
           \<and> pointBalances (ledgerContract s') (temporaryAddress s') = 101
           \<and> pointBalances (ledgerContract s') 10 = 899
           \<and> nonce (ledgerContract s') 10 = 1"
    unfolding v by simp
  with h1 h3 h6 h7 h8 show ?thesis by blast
qed

section \<open>Refund after opening\<close>

text \<open>
  Claim C7. After a successful \<open>openNewLoyaltyPayment\<close>, \<open>closeNewLoyaltyPayment\<close> with
  the secret of the request's lock and \<open>confirm = false\<close> succeeds, sets the status to
  \<open>FAILED_PAYMENT\<close> and leaves the payer's point balance exactly where it was before the
  open: the refund credits \<open>paidPoint + feePoint\<close>, the amount the open debited.
\<close>

theorem open_then_refund_restores_payer:
  assumes "openNewLoyaltyPayment env s d = Inr s1"
      and "in_secretLock d = keccak256 env' [abi_bytes32 secret]"
  shows "\<exists>s2. closeNewLoyaltyPayment env' s1 (in_paymentId d) secret False = Inr s2
           \<and> pointBalances (ledgerContract s2) (in_account d)
               = pointBalances (ledgerContract s) (in_account d)
           \<and> status (loyaltyPayments s2 (in_paymentId d)) = FAILED_PAYMENT
           \<and> (in_account d \<noteq> temporaryAddress s \<longrightarrow>
                pointBalances (ledgerContract s1) (in_account d)
                  + (paidPoint (loyaltyPayments s1 (in_paymentId d))
                     + feePoint (loyaltyPayments s1 (in_paymentId d)))
                  = pointBalances (ledgerContract s) (in_account d)
                \<and> pointBalances (ledgerContract s2) (in_account d)
                  = pointBalances (ledgerContract s1) (in_account d)
                    + (paidPoint (loyaltyPayments s1 (in_paymentId d))
                       + feePoint (loyaltyPayments s1 (in_paymentId d))))"
proof -
  from openNew_result [OF assms(1)] obtain pp fp where
    b: "pp + fp \<le> MAX_UINT256"
    and c: "pp + fp \<le> pointBalances (ledgerContract s) (in_account d)"
    and pp: "paidPoint (loyaltyPayments s1 (in_paymentId d)) = pp"
    and fp: "feePoint (loyaltyPayments s1 (in_paymentId d)) = fp"
    and acc: "account (loyaltyPayments s1 (in_paymentId d)) = in_account d"
    and lock: "secretLock (loyaltyPayments s1 (in_paymentId d)) = in_secretLock d"
    and st: "status (loyaltyPayments s1 (in_paymentId d)) = OPENED_PAYMENT"
    and tmp: "temporaryAddress s1 = temporaryAddress s"
    and pb: "pointBalances (ledgerContract s1) =
              ((pointBalances (ledgerContract s))
                 (in_account d := pointBalances (ledgerContract s) (in_account d) - (pp + fp)))
                 (temporaryAddress s :=
                    ((pointBalances (ledgerContract s))
                       (in_account d := pointBalances (ledgerContract s) (in_account d) - (pp + fp)))
                      (temporaryAddress s) + (pp + fp))"
    by blast
  have hold: "pp + fp \<le> pointBalances (ledgerContract s1) (temporaryAddress s1)"
    by (simp add: pb tmp)
  from closeNew_refund_result [of s1 "in_paymentId d" env' secret]
  obtain s2 where
    r: "closeNewLoyaltyPayment env' s1 (in_paymentId d) secret False = Inr s2"
    and st2: "status (loyaltyPayments s2 (in_paymentId d)) = FAILED_PAYMENT"
    and pb2: "pointBalances (ledgerContract s2) =
              ((pointBalances (ledgerContract s1))
                 (temporaryAddress s1 := pointBalances (ledgerContract s1) (temporaryAddress s1)
                    - (pp + fp)))
                 (in_account d :=
                    ((pointBalances (ledgerContract s1))
                       (temporaryAddress s1 := pointBalances (ledgerContract s1) (temporaryAddress s1)
                          - (pp + fp)))
                      (in_account d)
                    + (pp + fp))"
    using st lock assms(2) b hold by (auto simp: pp fp acc)
  have pb2': "pointBalances (ledgerContract s2) =
              ((pointBalances (ledgerContract s1))
                 (temporaryAddress s := pointBalances (ledgerContract s1) (temporaryAddress s)
                    - (pp + fp)))
                 (in_account d :=
                    ((pointBalances (ledgerContract s1))
                       (temporaryAddress s := pointBalances (ledgerContract s1) (temporaryAddress s)
                          - (pp + fp)))
                      (in_account d)
                    + (pp + fp))"
    using pb2 unfolding tmp .
  have restore: "pointBalances (ledgerContract s2) (in_account d)
                   = pointBalances (ledgerContract s) (in_account d)"
    unfolding pb2' by (rule escrow_roundtrip [OF c pb])
  have steps: "in_account d \<noteq> temporaryAddress s \<Longrightarrow>
                pointBalances (ledgerContract s1) (in_account d) + (pp + fp)
                  = pointBalances (ledgerContract s) (in_account d)
                \<and> pointBalances (ledgerContract s2) (in_account d)
                  = pointBalances (ledgerContract s1) (in_account d) + (pp + fp)"
    using c by (simp add: pb2 pb tmp)
  show ?thesis
    unfolding pp fp using r restore st2 steps by blast
qed


theorem open_then_refund_restores_payer_witness:
  "openNewLoyaltyPayment example_env example_initial example_input = Inr example_opened
   \<and> in_secretLock example_input = keccak256 example_env [abi_bytes32 5]
   \<and> (\<exists>s2. closeNewLoyaltyPayment example_env example_opened 7 5 False = Inr s2
          \<and> pointBalances (ledgerContract s2) 10 = 1000
          \<and> status (loyaltyPayments s2 7) = FAILED_PAYMENT)"
proof -
  have h2: "in_secretLock example_input = keccak256 example_env [abi_bytes32 5]"
    by (simp add: example_defs)
  have v: "in_paymentId example_input = 7" "in_account example_input = 10"
       "pointBalances (ledgerContract example_initial) 10 = 1000"
    by (simp_all add: example_initial_def example_defs)
  from open_then_refund_restores_payer [OF example_opened_reached h2]
  have "\<exists>s2. closeNewLoyaltyPayment example_env example_opened 7 5 False = Inr s2
          \<and> pointBalances (ledgerContract s2) 10 = 1000
          \<and> status (loyaltyPayments s2 7) = FAILED_PAYMENT"
    unfolding v by blast
  with example_opened_reached h2 show ?thesis by blast
qed

section \<open>Shortfalls of the fee accounts\<close>

text \<open>
  Claim C3. In \<open>closeNewLoyaltyPayment\<close> with \<open>confirm = true\<close>, on a record in
  \<open>OPENED_PAYMENT\<close> with the matching secret and the escrow in the holding account:
  when the system account's token balance is below \<open>feeToken\<close>, the call still succeeds.
  No token balance changes (the fee distribution is skipped), the holding account is
  debited \<open>paidPoint + feePoint\<close>, the status becomes \<open>CLOSED_PAYMENT\<close>, and for an active
  shop the converted value is stored in \<open>usedValueShop\<close> and appended to the shop's
  used-amount ledger.
\<close>

theorem closePayment_fee_shortfall_not_fatal:
  assumes "status (loyaltyPayments s pid) = OPENED_PAYMENT"
    and "secretLock (loyaltyPayments s pid) = keccak256 env [abi_bytes32 secret]"
    and "tokenBalances (ledgerContract s) (systemAccount s) < feeToken (loyaltyPayments s pid)"
    and "paidPoint (loyaltyPayments s pid) + feePoint (loyaltyPayments s pid)
           \<le> pointBalances (ledgerContract s) (temporaryAddress s)"
    and "pointBalances (ledgerContract s) (temporaryAddress s) \<le> MAX_UINT256"
  shows "\<exists>s'. closeNewLoyaltyPayment env s pid secret True = Inr s'
           \<and> tokenBalances (ledgerContract s') = tokenBalances (ledgerContract s)
           \<and> pointBalances (ledgerContract s')
               = (pointBalances (ledgerContract s))
                   (temporaryAddress s := pointBalances (ledgerContract s) (temporaryAddress s)
                      - (paidPoint (loyaltyPayments s pid) + feePoint (loyaltyPayments s pid)))
           \<and> status (loyaltyPayments s' pid) = CLOSED_PAYMENT
           \<and> (shop_status (shops (shopContract s) (shopId (loyaltyPayments s pid))) = ACTIVE \<longrightarrow>
                usedValueShop (loyaltyPayments s' pid)
                  = convertCurrency env (paidValue (loyaltyPayments s pid))
                      (currency (loyaltyPayments s pid))
                      (shop_currency (shops (shopContract s) (shopId (loyaltyPayments s pid))))
                \<and> usedAmounts (shopContract s')
                  = usedAmounts (shopContract s)
                    @ [AddUsed (shopId (loyaltyPayments s pid))
                         (usedValueShop (loyaltyPayments s' pid))
                         (purchaseId (loyaltyPayments s pid)) pid])"
  using assms
  by (simp add: closeNewLoyaltyPayment_def Let_def checked_add_def subPointBalance_def
      tokenBalanceOf_def pointBalanceOf_def emitLoyaltyPaymentEvent_def shopOf_def
      addUsedAmount_def)

theorem closePayment_fee_shortfall_not_fatal_witness:
  "status (loyaltyPayments example_opened_unfunded 7) = OPENED_PAYMENT
   \<and> secretLock (loyaltyPayments example_opened_unfunded 7) = keccak256 example_env [abi_bytes32 5]
   \<and> tokenBalances (ledgerContract example_opened_unfunded) (systemAccount example_opened_unfunded)
       < feeToken (loyaltyPayments example_opened_unfunded 7)
   \<and> paidPoint (loyaltyPayments example_opened_unfunded 7)
       + feePoint (loyaltyPayments example_opened_unfunded 7)
       \<le> pointBalances (ledgerContract example_opened_unfunded)
            (temporaryAddress example_opened_unfunded)
   \<and> pointBalances (ledgerContract example_opened_unfunded)
        (temporaryAddress example_opened_unfunded) \<le> MAX_UINT256
   \<and> (\<exists>s'. closeNewLoyaltyPayment example_env example_opened_unfunded 7 5 True = Inr s'
          \<and> tokenBalances (ledgerContract s') = tokenBalances (ledgerContract example_opened_unfunded)
          \<and> status (loyaltyPayments s' 7) = CLOSED_PAYMENT)"
proof -
  have h1: "status (loyaltyPayments example_opened_unfunded 7) = OPENED_PAYMENT"
    by (simp add: example_opened_unfunded_def example_defs)
  have h2: "secretLock (loyaltyPayments example_opened_unfunded 7)
              = keccak256 example_env [abi_bytes32 5]"
    by (simp add: example_opened_unfunded_def example_defs)
  have h3: "tokenBalances (ledgerContract example_opened_unfunded)
              (systemAccount example_opened_unfunded)
              < feeToken (loyaltyPayments example_opened_unfunded 7)"
    by (simp add: example_opened_unfunded_def example_defs)
  have h4: "paidPoint (loyaltyPayments example_opened_unfunded 7)
              + feePoint (loyaltyPayments example_opened_unfunded 7)
              \<le> pointBalances (ledgerContract example_opened_unfunded)
                   (temporaryAddress example_opened_unfunded)"
    by (simp add: example_opened_unfunded_def example_defs)
  have h5: "pointBalances (ledgerContract example_opened_unfunded)
              (temporaryAddress example_opened_unfunded) \<le> MAX_UINT256"
    by (simp add: example_opened_unfunded_def example_defs MAX_UINT256_def)
  from closePayment_fee_shortfall_not_fatal [OF h1 h2 h3 h4 h5] h1 h2 h3 h4 h5
  show ?thesis by blast
qed

section \<open>The fee-collection account at a cancel request\<close>

text \<open>
  Claim C4. In \<open>openCancelLoyaltyPayment\<close>, when the fee-collection account's token
  balance is below the record's \<open>feeToken\<close> the call fails and the state is as before
  (no balance, nonce, secret lock or status changes); the error is \<open>1513\<close> whenever the
  call is within the window and carries an accepted signature. Otherwise, with the
  balance sufficient (and \<open>paidPoint + feePoint\<close> a \<open>uint256\<close>, the fee-collection
  account not being the holding account), the call succeeds: \<open>feeToken\<close> moves from the
  fee-collection account to the holding account, the holding account is credited
  \<open>paidPoint + feePoint\<close>, the new secret lock is stored and the status is
  \<open>OPENED_CANCEL\<close>.
\<close>

theorem openCancel_fee_shortfall_is_fatal:
  "(tokenBalances (ledgerContract s) (paymentFeeAccount (ledgerContract s))
      < feeToken (loyaltyPayments s pid) \<longrightarrow>
    (\<exists>e. openCancelLoyaltyPayment env s pid newLock sig = Inl e)
    \<and> commit s (openCancelLoyaltyPayment env s pid newLock sig) = s)
   \<and> (timestamp (loyaltyPayments s pid) + 86400 * 7 \<le> MAX_UINT256
      \<and> block_timestamp env \<le> timestamp (loyaltyPayments s pid) + 86400 * 7
      \<and> openCancelSignatureCheck env s pid sig = Inr (pass1, pass2) \<and> (pass1 \<or> pass2) \<longrightarrow>
      (tokenBalances (ledgerContract s) (paymentFeeAccount (ledgerContract s))
         < feeToken (loyaltyPayments s pid) \<longrightarrow>
       openCancelLoyaltyPayment env s pid newLock sig = Inl (Revert ''1513''))
      \<and> (feeToken (loyaltyPayments s pid)
            \<le> tokenBalances (ledgerContract s) (paymentFeeAccount (ledgerContract s))
          \<and> paidPoint (loyaltyPayments s pid) + feePoint (loyaltyPayments s pid) \<le> MAX_UINT256
          \<and> paymentFeeAccount (ledgerContract s) \<noteq> temporaryAddress s \<longrightarrow>
          (\<exists>s'. openCancelLoyaltyPayment env s pid newLock sig = Inr s'
             \<and> tokenBalances (ledgerContract s') (paymentFeeAccount (ledgerContract s))
                 = tokenBalances (ledgerContract s) (paymentFeeAccount (ledgerContract s))
                   - feeToken (loyaltyPayments s pid)
             \<and> tokenBalances (ledgerContract s') (temporaryAddress s)
                 = tokenBalances (ledgerContract s) (temporaryAddress s)
                   + feeToken (loyaltyPayments s pid)
             \<and> pointBalances (ledgerContract s') (temporaryAddress s)
                 = pointBalances (ledgerContract s) (temporaryAddress s)
                   + (paidPoint (loyaltyPayments s pid) + feePoint (loyaltyPayments s pid))
             \<and> secretLock (loyaltyPayments s' pid) = newLock
             \<and> status (loyaltyPayments s' pid) = OPENED_CANCEL)))"
proof (intro conjI impI)
  assume short: "tokenBalances (ledgerContract s) (paymentFeeAccount (ledgerContract s))
            < feeToken (loyaltyPayments s pid)"
  from openCancel_short_aborts [OF short]
  show e: "\<exists>e. openCancelLoyaltyPayment env s pid newLock sig = Inl e" .
  then show "commit s (openCancelLoyaltyPayment env s pid newLock sig) = s"
    by (auto simp: commit_def)
next
  assume reach: "timestamp (loyaltyPayments s pid) + 86400 * 7 \<le> MAX_UINT256
      \<and> block_timestamp env \<le> timestamp (loyaltyPayments s pid) + 86400 * 7
      \<and> openCancelSignatureCheck env s pid sig = Inr (pass1, pass2) \<and> (pass1 \<or> pass2)"
    and short: "tokenBalances (ledgerContract s) (paymentFeeAccount (ledgerContract s))
            < feeToken (loyaltyPayments s pid)"
  show "openCancelLoyaltyPayment env s pid newLock sig = Inl (Revert ''1513'')"
    using reach short cancelStatusGuard_holds [of "status (loyaltyPayments s pid)"]
    by (auto simp: openCancelLoyaltyPayment_def Let_def checked_add_def tokenBalanceOf_def
        getPaymentFeeAccount_def increaseNonce_def)
next
  assume reach: "timestamp (loyaltyPayments s pid) + 86400 * 7 \<le> MAX_UINT256
      \<and> block_timestamp env \<le> timestamp (loyaltyPayments s pid) + 86400 * 7
      \<and> openCancelSignatureCheck env s pid sig = Inr (pass1, pass2) \<and> (pass1 \<or> pass2)"
    and ok: "feeToken (loyaltyPayments s pid)
            \<le> tokenBalances (ledgerContract s) (paymentFeeAccount (ledgerContract s))
          \<and> paidPoint (loyaltyPayments s pid) + feePoint (loyaltyPayments s pid) \<le> MAX_UINT256
          \<and> paymentFeeAccount (ledgerContract s) \<noteq> temporaryAddress s"
  show "\<exists>s'. openCancelLoyaltyPayment env s pid newLock sig = Inr s'
             \<and> tokenBalances (ledgerContract s') (paymentFeeAccount (ledgerContract s))
                 = tokenBalances (ledgerContract s) (paymentFeeAccount (ledgerContract s))
                   - feeToken (loyaltyPayments s pid)
             \<and> tokenBalances (ledgerContract s') (temporaryAddress s)
                 = tokenBalances (ledgerContract s) (temporaryAddress s)
                   + feeToken (loyaltyPayments s pid)
             \<and> pointBalances (ledgerContract s') (temporaryAddress s)
                 = pointBalances (ledgerContract s) (temporaryAddress s)
                   + (paidPoint (loyaltyPayments s pid) + feePoint (loyaltyPayments s pid))
             \<and> secretLock (loyaltyPayments s' pid) = newLock
             \<and> status (loyaltyPayments s' pid) = OPENED_CANCEL"
    using reach ok cancelStatusGuard_holds [of "status (loyaltyPayments s pid)"]
    by (auto simp: openCancelLoyaltyPayment_def Let_def checked_add_def tokenBalanceOf_def
        getPaymentFeeAccount_def increaseNonce_def transferToken_def subTokenBalance_def
        addTokenBalance_def addPointBalance_def pointBalanceOf_def emitLoyaltyPaymentEvent_def)
qed

theorem openCancel_fee_shortfall_is_fatal_witness:
  "tokenBalances (ledgerContract example_settled_unfunded)
       (paymentFeeAccount (ledgerContract example_settled_unfunded))
     < feeToken (loyaltyPayments example_settled_unfunded 7)
   \<and> timestamp (loyaltyPayments example_settled_unfunded 7) + 86400 * 7 \<le> MAX_UINT256
   \<and> block_timestamp example_env \<le> timestamp (loyaltyPayments example_settled_unfunded 7) + 86400 * 7
   \<and> openCancelSignatureCheck example_env example_settled_unfunded 7
        (example_cancel_signature 20 0) = Inr (True, False)
   \<and> openCancelLoyaltyPayment example_env example_settled_unfunded 7 227
        (example_cancel_signature 20 0) = Inl (Revert ''1513'')
   \<and> commit example_settled_unfunded
        (openCancelLoyaltyPayment example_env example_settled_unfunded 7 227
           (example_cancel_signature 20 0)) = example_settled_unfunded
   \<and> feeToken (loyaltyPayments example_settled 7)
       \<le> tokenBalances (ledgerContract example_settled)
            (paymentFeeAccount (ledgerContract example_settled))
   \<and> paidPoint (loyaltyPayments example_settled 7) + feePoint (loyaltyPayments example_settled 7)
       \<le> MAX_UINT256
   \<and> paymentFeeAccount (ledgerContract example_settled) \<noteq> temporaryAddress example_settled
   \<and> openCancelSignatureCheck example_env example_settled 7 (example_cancel_signature 20 0)
       = Inr (True, False)
   \<and> (\<exists>s'. openCancelLoyaltyPayment example_env example_settled 7 227
              (example_cancel_signature 20 0) = Inr s'
          \<and> secretLock (loyaltyPayments s' 7) = 227
          \<and> status (loyaltyPayments s' 7) = OPENED_CANCEL)"
proof -
  have a1: "tokenBalances (ledgerContract example_settled_unfunded)
              (paymentFeeAccount (ledgerContract example_settled_unfunded))
            < feeToken (loyaltyPayments example_settled_unfunded 7)"
    by (simp add: example_settled_unfunded_def example_defs)
  have a2: "timestamp (loyaltyPayments example_settled_unfunded 7) + 86400 * 7 \<le> MAX_UINT256"
    by (simp add: example_settled_unfunded_def example_defs MAX_UINT256_def)
  have a3: "block_timestamp example_env
              \<le> timestamp (loyaltyPayments example_settled_unfunded 7) + 86400 * 7"
    by (simp add: example_settled_unfunded_def example_defs)
  note a4 = example_owner_signature_check_unfunded
  have b1: "feeToken (loyaltyPayments example_settled 7)
              \<le> tokenBalances (ledgerContract example_settled)
                   (paymentFeeAccount (ledgerContract example_settled))"
    by (simp add: example_settled_def example_defs)
  have b2: "paidPoint (loyaltyPayments example_settled 7)
              + feePoint (loyaltyPayments example_settled 7) \<le> MAX_UINT256"
    by (simp add: example_settled_def example_defs MAX_UINT256_def)
  have b3: "paymentFeeAccount (ledgerContract example_settled) \<noteq> temporaryAddress example_settled"
    by (simp add: example_settled_def example_defs)
  have b4: "timestamp (loyaltyPayments example_settled 7) + 86400 * 7 \<le> MAX_UINT256"
    by (simp add: example_settled_def example_defs MAX_UINT256_def)
  have b5: "block_timestamp example_env \<le> timestamp (loyaltyPayments example_settled 7) + 86400 * 7"
    by (simp add: example_settled_def example_defs)
  note b6 = example_owner_signature_check
  from openCancel_fee_shortfall_is_fatal
         [of example_settled_unfunded 7 example_env 227 "example_cancel_signature 20 0" True False]
       a1 a2 a3 a4
  have fatal: "openCancelLoyaltyPayment example_env example_settled_unfunded 7 227
                 (example_cancel_signature 20 0) = Inl (Revert ''1513'')
               \<and> commit example_settled_unfunded
                   (openCancelLoyaltyPayment example_env example_settled_unfunded 7 227
                      (example_cancel_signature 20 0)) = example_settled_unfunded"
    by blast
  from openCancel_fee_shortfall_is_fatal
         [of example_settled 7 example_env 227 "example_cancel_signature 20 0" True False]
       b1 b2 b3 b4 b5 b6
  have ok: "\<exists>s'. openCancelLoyaltyPayment example_env example_settled 7 227
              (example_cancel_signature 20 0) = Inr s'
          \<and> secretLock (loyaltyPayments s' 7) = 227
          \<and> status (loyaltyPayments s' 7) = OPENED_CANCEL"
    by blast
  from fatal ok a1 a2 a3 a4 b1 b2 b3 b6 show ?thesis by blast
qed


section \<open>Rejecting a cancellation\<close>

text \<open>
  Claim C10. \<open>closeCancelLoyaltyPayment\<close> with \<open>confirm = false\<close>, on a record in
  \<open>OPENED_CANCEL\<close> with the matching secret whose payer is not the holding account,
  changes neither the payer's point balance nor the shop's used-amount ledger, whether
  it succeeds or fails. When it succeeds it has set the status to \<open>FAILED_CANCEL\<close>,
  debited the holding account's points by \<open>paidPoint + feePoint\<close> and nothing else of
  the point balances, moved \<open>feeToken\<close> from the holding account to the fee-collection
  account, and the balance in the event it emitted last is the payer's balance before
  the call. It succeeds when the holding account has the tokens and the points.
\<close>

theorem closeCancel_rejection_leaves_payer_and_shop:
  assumes st: "status (loyaltyPayments s pid) = OPENED_CANCEL"
    and lock: "secretLock (loyaltyPayments s pid) = keccak256 env [abi_bytes32 secret]"
    and other: "account (loyaltyPayments s pid) \<noteq> temporaryAddress s"
  shows "pointBalances (ledgerContract (commit s (closeCancelLoyaltyPayment env s pid secret False)))
           (account (loyaltyPayments s pid))
           = pointBalances (ledgerContract s) (account (loyaltyPayments s pid))
       \<and> shopContract (commit s (closeCancelLoyaltyPayment env s pid secret False)) = shopContract s
       \<and> (\<forall>s'. closeCancelLoyaltyPayment env s pid secret False = Inr s' \<longrightarrow>
             status (loyaltyPayments s' pid) = FAILED_CANCEL
           \<and> pointBalances (ledgerContract s')
               = (pointBalances (ledgerContract s))
                   (temporaryAddress s := pointBalances (ledgerContract s) (temporaryAddress s)
                      - (paidPoint (loyaltyPayments s pid) + feePoint (loyaltyPayments s pid)))
           \<and> tokenBalances (ledgerContract s')
               = ((tokenBalances (ledgerContract s))
                    (temporaryAddress s := tokenBalances (ledgerContract s) (temporaryAddress s)
                       - feeToken (loyaltyPayments s pid)))
                   (paymentFeeAccount (ledgerContract s) :=
                      ((tokenBalances (ledgerContract s))
                         (temporaryAddress s := tokenBalances (ledgerContract s) (temporaryAddress s)
                            - feeToken (loyaltyPayments s pid)))
                        (paymentFeeAccount (ledgerContract s))
                      + feeToken (loyaltyPayments s pid))
           \<and> last (events s')
               = (loyaltyPayments s' pid,
                  pointBalances (ledgerContract s) (account (loyaltyPayments s pid))))
       \<and> (feeToken (loyaltyPayments s pid) \<le> tokenBalances (ledgerContract s) (temporaryAddress s)
           \<and> paidPoint (loyaltyPayments s pid) + feePoint (loyaltyPayments s pid)
                \<le> pointBalances (ledgerContract s) (temporaryAddress s)
           \<and> pointBalances (ledgerContract s) (temporaryAddress s) \<le> MAX_UINT256 \<longrightarrow>
           (\<exists>s'. closeCancelLoyaltyPayment env s pid secret False = Inr s'))"
proof -
  let ?r = "closeCancelLoyaltyPayment env s pid secret False"
  have eff: "status (loyaltyPayments s' pid) = FAILED_CANCEL
           \<and> pointBalances (ledgerContract s')
               = (pointBalances (ledgerContract s))
                   (temporaryAddress s := pointBalances (ledgerContract s) (temporaryAddress s)
                      - (paidPoint (loyaltyPayments s pid) + feePoint (loyaltyPayments s pid)))
           \<and> tokenBalances (ledgerContract s')
               = ((tokenBalances (ledgerContract s))
                    (temporaryAddress s := tokenBalances (ledgerContract s) (temporaryAddress s)
                       - feeToken (loyaltyPayments s pid)))
                   (paymentFeeAccount (ledgerContract s) :=
                      ((tokenBalances (ledgerContract s))
                         (temporaryAddress s := tokenBalances (ledgerContract s) (temporaryAddress s)
                            - feeToken (loyaltyPayments s pid)))
                        (paymentFeeAccount (ledgerContract s))
                      + feeToken (loyaltyPayments s pid))
           \<and> last (events s')
               = (loyaltyPayments s' pid,
                  pointBalances (ledgerContract s) (account (loyaltyPayments s pid)))
           \<and> pointBalances (ledgerContract s') (account (loyaltyPayments s pid))
               = pointBalances (ledgerContract s) (account (loyaltyPayments s pid))
           \<and> shopContract s' = shopContract s"
    if r: "?r = Inr s'" for s'
    using closeCancel_reject_result [OF r] other by simp
  have frame: "pointBalances (ledgerContract (commit s ?r)) (account (loyaltyPayments s pid))
                 = pointBalances (ledgerContract s) (account (loyaltyPayments s pid))
               \<and> shopContract (commit s ?r) = shopContract s"
  proof (cases ?r)
    case (Inl e)
    then show ?thesis by (simp add: commit_def)
  next
    case (Inr s')
    with eff [OF Inr] other show ?thesis by (simp add: commit_def)
  qed
  have succ: "\<exists>s'. ?r = Inr s'"
    if "feeToken (loyaltyPayments s pid) \<le> tokenBalances (ledgerContract s) (temporaryAddress s)
           \<and> paidPoint (loyaltyPayments s pid) + feePoint (loyaltyPayments s pid)
                \<le> pointBalances (ledgerContract s) (temporaryAddress s)
           \<and> pointBalances (ledgerContract s) (temporaryAddress s) \<le> MAX_UINT256"
    using that st lock
    by (simp add: closeCancelLoyaltyPayment_def Let_def checked_add_def subPointBalance_def
        transferToken_def subTokenBalance_def addTokenBalance_def getPaymentFeeAccount_def)
  from frame eff succ show ?thesis by blast
qed


theorem closeCancel_rejection_leaves_payer_and_shop_witness:
  "status (loyaltyPayments example_cancelling 7) = OPENED_CANCEL
   \<and> secretLock (loyaltyPayments example_cancelling 7) = keccak256 example_env [abi_bytes32 9]
   \<and> account (loyaltyPayments example_cancelling 7) \<noteq> temporaryAddress example_cancelling
   \<and> pointBalances (ledgerContract example_cancelling) (account (loyaltyPayments example_cancelling 7))
       = 899
   \<and> pointBalances
        (ledgerContract (commit example_cancelling
           (closeCancelLoyaltyPayment example_env example_cancelling 7 9 False)))
        (account (loyaltyPayments example_cancelling 7)) = 899
   \<and> shopContract (commit example_cancelling
         (closeCancelLoyaltyPayment example_env example_cancelling 7 9 False))
       = shopContract example_cancelling
   \<and> (\<exists>s'. closeCancelLoyaltyPayment example_env example_cancelling 7 9 False = Inr s'
          \<and> status (loyaltyPayments s' 7) = FAILED_CANCEL
          \<and> last (events s') = (loyaltyPayments s' 7, 899))"
proof -
  have h1: "status (loyaltyPayments example_cancelling 7) = OPENED_CANCEL"
    by (simp add: example_cancelling_def example_defs)
  have h2: "secretLock (loyaltyPayments example_cancelling 7)
              = keccak256 example_env [abi_bytes32 9]"
    by (simp add: example_cancelling_def example_defs)
  have h3: "account (loyaltyPayments example_cancelling 7) \<noteq> temporaryAddress example_cancelling"
    by (simp add: example_cancelling_def example_defs)
  have v: "pointBalances (ledgerContract example_cancelling)
             (account (loyaltyPayments example_cancelling 7)) = 899"
    by (simp add: example_cancelling_def example_defs)
  have escrow: "feeToken (loyaltyPayments example_cancelling 7)
                  \<le> tokenBalances (ledgerContract example_cancelling)
                       (temporaryAddress example_cancelling)
           \<and> paidPoint (loyaltyPayments example_cancelling 7)
               + feePoint (loyaltyPayments example_cancelling 7)
                \<le> pointBalances (ledgerContract example_cancelling)
                     (temporaryAddress example_cancelling)
           \<and> pointBalances (ledgerContract example_cancelling)
                (temporaryAddress example_cancelling) \<le> MAX_UINT256"
    by (simp add: example_cancelling_def example_defs MAX_UINT256_def)
  note t = closeCancel_rejection_leaves_payer_and_shop [OF h1 h2 h3]
  from t escrow obtain s' where
    r: "closeCancelLoyaltyPayment example_env example_cancelling 7 9 False = Inr s'"
    by blast
  from t r have e: "status (loyaltyPayments s' 7) = FAILED_CANCEL"
    "last (events s') = (loyaltyPayments s' 7,
       pointBalances (ledgerContract example_cancelling)
         (account (loyaltyPayments example_cancelling 7)))"
    by blast+
  from t have f: "pointBalances
        (ledgerContract (commit example_cancelling
           (closeCancelLoyaltyPayment example_env example_cancelling 7 9 False)))
        (account (loyaltyPayments example_cancelling 7))
      = pointBalances (ledgerContract example_cancelling)
          (account (loyaltyPayments example_cancelling 7))"
    "shopContract (commit example_cancelling
         (closeCancelLoyaltyPayment example_env example_cancelling 7 9 False))
       = shopContract example_cancelling"
    by blast+
  from h1 h2 h3 v r e f show ?thesis
    unfolding v by blast
qed

section \<open>The point supply across the transitions\<close>

text \<open>
  Claim C2, as amended. Over any list of distinct accounts that contains the holding
  account (and the payer, where the payer's balance moves): \<open>openNewLoyaltyPayment\<close> and
  \<open>closeNewLoyaltyPayment\<close> with \<open>confirm = false\<close> leave the total of the point
  balances unchanged, the payer's debit or credit being matched by the holding
  account's; \<open>closeNewLoyaltyPayment\<close> with \<open>confirm = true\<close> and
  \<open>closeCancelLoyaltyPayment\<close> with \<open>confirm = false\<close> lower the total by exactly
  \<open>paidPoint + feePoint\<close>, burnt from the holding account; \<open>openCancelLoyaltyPayment\<close>
  raises it by exactly \<open>paidPoint + feePoint\<close>, credited to the holding account.
\<close>

theorem point_supply_by_operation:
  assumes d: "distinct accounts" and t: "temporaryAddress s \<in> set accounts"
  shows "(\<forall>s'. openNewLoyaltyPayment env s inp = Inr s' \<longrightarrow> in_account inp \<in> set accounts \<longrightarrow>
            pointSupply s' accounts = pointSupply s accounts)
       \<and> (\<forall>s'. closeNewLoyaltyPayment env s pid secret False = Inr s' \<longrightarrow>
            account (loyaltyPayments s pid) \<in> set accounts \<longrightarrow>
            pointSupply s' accounts = pointSupply s accounts)
       \<and> (\<forall>s'. closeNewLoyaltyPayment env s pid secret True = Inr s' \<longrightarrow>
            pointSupply s' accounts
              + (paidPoint (loyaltyPayments s pid) + feePoint (loyaltyPayments s pid))
              = pointSupply s accounts)
       \<and> (\<forall>s'. openCancelLoyaltyPayment env s pid newLock sig = Inr s' \<longrightarrow>
            pointSupply s' accounts
              = pointSupply s accounts
                + (paidPoint (loyaltyPayments s pid) + feePoint (loyaltyPayments s pid)))
       \<and> (\<forall>s'. closeCancelLoyaltyPayment env s pid secret False = Inr s' \<longrightarrow>
            pointSupply s' accounts
              + (paidPoint (loyaltyPayments s pid) + feePoint (loyaltyPayments s pid))
              = pointSupply s accounts)"
proof (intro conjI allI impI)
  fix s'
  assume r: "openNewLoyaltyPayment env s inp = Inr s'" and a: "in_account inp \<in> set accounts"
  from openNew_result [OF r] obtain pp fp where
    le: "pp + fp \<le> pointBalances (ledgerContract s) (in_account inp)"
    and pb: "pointBalances (ledgerContract s') =
              ((pointBalances (ledgerContract s))
                 (in_account inp := pointBalances (ledgerContract s) (in_account inp) - (pp + fp)))
                 (temporaryAddress s :=
                    ((pointBalances (ledgerContract s))
                       (in_account inp := pointBalances (ledgerContract s) (in_account inp) - (pp + fp)))
                      (temporaryAddress s) + (pp + fp))"
    by blast
  show "pointSupply s' accounts = pointSupply s accounts"
    unfolding pointSupply_def pb
    by (rule supply_transfer
        [where f = "pointBalances (ledgerContract s)" and a = "in_account inp"
           and t = "temporaryAddress s" and n = "pp + fp", OF d a t le refl])
next
  fix s'
  assume r: "closeNewLoyaltyPayment env s pid secret False = Inr s'"
    and a: "account (loyaltyPayments s pid) \<in> set accounts"
  from closeNew_refund_effect [OF r]
  show "pointSupply s' accounts = pointSupply s accounts"
    unfolding pointSupply_def
    using supply_transfer
        [where f = "pointBalances (ledgerContract s)" and a = "temporaryAddress s"
           and t = "account (loyaltyPayments s pid)"
           and n = "paidPoint (loyaltyPayments s pid) + feePoint (loyaltyPayments s pid)",
         OF d t a _ refl]
    by simp
next
  fix s'
  assume r: "closeNewLoyaltyPayment env s pid secret True = Inr s'"
  from closeNew_settle_result [OF r]
  show "pointSupply s' accounts
          + (paidPoint (loyaltyPayments s pid) + feePoint (loyaltyPayments s pid))
          = pointSupply s accounts"
    unfolding pointSupply_def
    using supply_debit
        [where f = "pointBalances (ledgerContract s)"
           and n = "paidPoint (loyaltyPayments s pid) + feePoint (loyaltyPayments s pid)",
         OF d t]
    by simp
next
  fix s'
  assume r: "openCancelLoyaltyPayment env s pid newLock sig = Inr s'"
  from openCancel_result [OF r]
  show "pointSupply s' accounts
          = pointSupply s accounts
            + (paidPoint (loyaltyPayments s pid) + feePoint (loyaltyPayments s pid))"
    unfolding pointSupply_def
    using supply_credit
        [where f = "pointBalances (ledgerContract s)"
           and n = "paidPoint (loyaltyPayments s pid) + feePoint (loyaltyPayments s pid)",
         OF d t]
    by simp
next
  fix s'
  assume r: "closeCancelLoyaltyPayment env s pid secret False = Inr s'"
  from closeCancel_reject_result [OF r]
  show "pointSupply s' accounts
          + (paidPoint (loyaltyPayments s pid) + feePoint (loyaltyPayments s pid))
          = pointSupply s accounts"
    unfolding pointSupply_def
    using supply_debit
        [where f = "pointBalances (ledgerContract s)"
           and n = "paidPoint (loyaltyPayments s pid) + feePoint (loyaltyPayments s pid)",
         OF d t]
    by simp
qed


theorem point_supply_by_operation_witness:
  "distinct [10, 0, 20, 30, 40, 50::nat]
   \<and> temporaryAddress example_initial \<in> set [10, 0, 20, 30, 40, 50]
   \<and> temporaryAddress example_opened \<in> set [10, 0, 20, 30, 40, 50]
   \<and> temporaryAddress example_settled \<in> set [10, 0, 20, 30, 40, 50]
   \<and> in_account example_input \<in> set [10, 0, 20, 30, 40, 50]
   \<and> openNewLoyaltyPayment example_env example_initial example_input = Inr example_opened
   \<and> pointSupply example_opened [10, 0, 20, 30, 40, 50]
       = pointSupply example_initial [10, 0, 20, 30, 40, 50]
   \<and> closeNewLoyaltyPayment example_env example_opened 7 5 True = Inr example_settled
   \<and> pointSupply example_settled [10, 0, 20, 30, 40, 50]
       + (paidPoint (loyaltyPayments example_opened 7) + feePoint (loyaltyPayments example_opened 7))
       = pointSupply example_opened [10, 0, 20, 30, 40, 50]
   \<and> openCancelLoyaltyPayment example_env example_settled 7 227 (example_cancel_signature 20 0)
       = Inr example_cancelling
   \<and> pointSupply example_cancelling [10, 0, 20, 30, 40, 50]
       = pointSupply example_settled [10, 0, 20, 30, 40, 50]
         + (paidPoint (loyaltyPayments example_settled 7)
            + feePoint (loyaltyPayments example_settled 7))"
proof -
  have d: "distinct [10, 0, 20, 30, 40, 50::nat]"
    by simp
  have t0: "temporaryAddress example_initial \<in> set [10, 0, 20, 30, 40, 50]"
    by (simp add: example_initial_def example_world_def)
  have t1: "temporaryAddress example_opened \<in> set [10, 0, 20, 30, 40, 50]"
    by (simp add: example_opened_def example_world_def)
  have t2: "temporaryAddress example_settled \<in> set [10, 0, 20, 30, 40, 50]"
    by (simp add: example_settled_def example_world_def)
  have a: "in_account example_input \<in> set [10, 0, 20, 30, 40, 50]"
    by (simp add: example_input_def)
  from point_supply_by_operation [OF d t0, of example_env example_input] example_opened_reached a
  have s1: "pointSupply example_opened [10, 0, 20, 30, 40, 50]
              = pointSupply example_initial [10, 0, 20, 30, 40, 50]"
    by blast
  from point_supply_by_operation [OF d t1, of example_env _ 7 5] example_settled_reached
  have s2: "pointSupply example_settled [10, 0, 20, 30, 40, 50]
              + (paidPoint (loyaltyPayments example_opened 7)
                 + feePoint (loyaltyPayments example_opened 7))
              = pointSupply example_opened [10, 0, 20, 30, 40, 50]"
    by blast
  from point_supply_by_operation
         [OF d t2, of example_env _ 7 _ 227 "example_cancel_signature 20 0"]
       example_cancelling_reached
  have s3: "pointSupply example_cancelling [10, 0, 20, 30, 40, 50]
              = pointSupply example_settled [10, 0, 20, 30, 40, 50]
                + (paidPoint (loyaltyPayments example_settled 7)
                   + feePoint (loyaltyPayments example_settled 7))"
    by blast
  from d t0 t1 t2 a s1 s2 s3 example_opened_reached example_settled_reached
       example_cancelling_reached
  show ?thesis by blast
qed

text \<open>
  The claim as first stated, that no operation creates or destroys points, fails in the
  scenario: settling payment \<open>7\<close> takes the supply over the payer, the holding account
  and the other accounts of the scenario from 1000 to 899, and the shop's cancel request
  brings it back to 1000.
\<close>

theorem point_supply_conserved_counterexample:
  "closeNewLoyaltyPayment example_env example_opened 7 5 True = Inr example_settled
   \<and> pointSupply example_opened [10, 0, 20, 30, 40, 50] = 1000
   \<and> pointSupply example_settled [10, 0, 20, 30, 40, 50] = 899
   \<and> openCancelLoyaltyPayment example_env example_settled 7 227 (example_cancel_signature 20 0)
       = Inr example_cancelling
   \<and> pointSupply example_cancelling [10, 0, 20, 30, 40, 50] = 1000"
  using example_settled_reached example_cancelling_reached example_supply by simp

section \<open>The nonce consumed by a cancel request\<close>

text \<open>
  Claim C9 says that \<open>openCancelLoyaltyPayment\<close> consumes the nonce of the account whose
  signature verified. In the scenario the delegate \<open>30\<close> signs the cancel request of
  payment \<open>7\<close> over its own nonce 0: only the second check passes, the call succeeds,
  and the nonce that has grown is that of the shop's account \<open>20\<close>; the delegate's nonce
  is still 0, and the same signature passes the check again in the resulting state.
\<close>

theorem openCancel_by_delegate_consumes_owner_nonce:
  "openCancelSignatureCheck example_env example_settled 7 (example_cancel_signature 30 0)
     = Inr (False, True)
   \<and> openCancelLoyaltyPayment example_env example_settled 7 227 (example_cancel_signature 30 0)
       = Inr example_cancelling
   \<and> nonce (ledgerContract example_settled) 30 = 0
   \<and> nonce (ledgerContract example_cancelling) 30 = 0
   \<and> nonce (ledgerContract example_settled) 20 = 0
   \<and> nonce (ledgerContract example_cancelling) 20 = 1
   \<and> openCancelSignatureCheck example_env example_cancelling 7 (example_cancel_signature 30 0)
       = Inr (False, True)"
proof -
  have c1: "openCancelSignatureCheck example_env example_settled 7 (example_cancel_signature 30 0)
              = Inr (False, True)"
    by (simp add: example_settled_def example_defs ledger_defs openCancelSignatureCheck_def
        recoverSigner_def AddressZero_def Let_def)
  have c2: "openCancelLoyaltyPayment example_env example_settled 7 227
              (example_cancel_signature 30 0) = Inr example_cancelling"
    by (simp add: example_settled_def example_cancelling_def example_defs ledger_defs op_defs
        fun_eq_iff)
  have c3: "openCancelSignatureCheck example_env example_cancelling 7
              (example_cancel_signature 30 0) = Inr (False, True)"
    by (simp add: example_cancelling_def example_defs ledger_defs openCancelSignatureCheck_def
        recoverSigner_def AddressZero_def Let_def)
  have n: "nonce (ledgerContract example_settled) 30 = 0"
       "nonce (ledgerContract example_cancelling) 30 = 0"
       "nonce (ledgerContract example_settled) 20 = 0"
       "nonce (ledgerContract example_cancelling) 20 = 1"
    by (simp_all add: example_settled_def example_cancelling_def example_world_def table_def)
  from c1 c2 c3 n show ?thesis by blast
qed


end
